theory Spec2Isabelle
  imports Complex_Main
begin

section \<open>Data model (wine\_wrapper.hpp)\<close>

datatype ProcessState = IDLE | STARTING | RUNNING | PAUSED | STOPPING | STOPPED | ERROR | KILLED

datatype LogLevel = DEBUG | INFO | WARNING | ERROR_LOG | CRITICAL

datatype WineArchitecture = WIN32 | WIN64 | AUTO_DETECT

text \<open>
  \<open>struct ProcessInfo\<close>. A \<open>pid_t\<close> is an \<open>int\<close>; a \<open>time_point\<close> is the
  number of clock ticks since the epoch; \<open>size_t\<close> is a 64-bit unsigned number, kept as a
  \<open>nat\<close> with the wrap-around written where the source multiplies.
\<close>

record ProcessInfo =
  pid :: int
  state :: ProcessState
  executable_path :: string
  arguments :: "string list"
  environment :: "(string \<times> string) list"
  start_time :: int
  end_time :: int
  exit_code :: int
  stdout_data :: string
  stderr_data :: string
  memory_usage :: nat
  cpu_usage :: real
  wine_prefix :: string
  architecture :: WineArchitecture

text \<open>
  The value of the expression \<open>ProcessInfo()\<close>: the struct has no user-provided
  constructor, so value-initialisation zeroes every scalar member (pid 0, the first
  enumerator of each enum, the epoch) and default-constructs the strings and containers.
\<close>

definition ProcessInfo_value_init :: ProcessInfo where
  "ProcessInfo_value_init =
     \<lparr>pid = 0, state = IDLE, executable_path = [], arguments = [], environment = [],
      start_time = 0, end_time = 0, exit_code = 0, stdout_data = [], stderr_data = [],
      memory_usage = 0, cpu_usage = 0, wine_prefix = [], architecture = WIN32\<rparr>"

text \<open>
  \<open>struct WineConfiguration\<close>, the members the launch path reads. Its \<open>wine_prefix\<close>
  and \<open>architecture\<close> carry the prefix \<open>config_\<close> here, \<open>ProcessInfo\<close> having
  members of the same names.
\<close>

record WineConfiguration =
  config_wine_prefix :: string
  wine_binary :: string
  config_architecture :: WineArchitecture
  environment_variables :: "(string \<times> string) list"
  dll_overrides :: "string list"
  virtual_desktop_resolution :: string
  enable_virtual_desktop :: bool
  enable_csmt :: bool
  enable_dxvk :: bool
  enable_esync :: bool
  enable_fsync :: bool
  audio_driver :: string
  graphics_driver :: string
  nice_level :: int
  capture_stdout :: bool
  capture_stderr :: bool

section \<open>The operating system as seen by one call\<close>

text \<open>
  What \<open>stat\<close> reports of a path: whether it is a regular file (\<open>S_ISREG\<close>) and whether
  the caller may read it. The source looks at the first only.
\<close>

record file_stat =
  st_isreg :: bool
  st_readable :: bool

text \<open>
  The status \<open>waitpid\<close> stores, as the macros of \<open>sys/wait.h\<close> read it:
  \<open>WIFEXITED\<close> with \<open>WEXITSTATUS\<close>, \<open>WIFSIGNALED\<close> with \<open>WTERMSIG\<close>, or neither
  (a stopped or continued child).
\<close>

datatype wait_status = Exited int | Signaled int | Stopped int | Continued

text \<open>
  The answers of the system calls and of the files under \<open>/proc\<close> during one call of the
  program:
  \<^item> \<open>sys_kill p sig\<close> is the result of \<open>kill(p, sig)\<close>, 0 or -1, when the call
    returns;
  \<^item> \<open>sys_kill_ends_caller p sig\<close> holds when \<open>kill(p, sig)\<close> delivers the signal to the
    calling program itself (\<open>p\<close> is 0, its own pid or its group) and the signal ends it:
    the program ends inside the call, which does not return. The source installs no
    signal handler. Signal 0 sends nothing, and \<open>SIGSTOP\<close> and \<open>SIGCONT\<close> end no
    program: the liveness probe, \<open>pause_process\<close> and \<open>resume_process\<close> return (a
    caller that stops itself, once it is continued);
  \<^item> \<open>proc_stat p\<close> is the first line of \<open>/proc/p/stat\<close>, \<open>None\<close> when the file does
    not open;
  \<^item> \<open>proc_vmrss p\<close> is the number that stream extraction reads after the label of the
    first line of \<open>/proc/p/status\<close> starting with \<open>VmRSS:\<close>, \<open>None\<close> when the file
    does not open or has no such line;
  \<^item> \<open>sys_now\<close> is the reading of the system clock;
  \<^item> \<open>sys_stat path\<close> is what \<open>stat\<close> fills in, \<open>None\<close> when it fails;
  \<^item> \<open>sys_pw_dir\<close> is the home directory of the password database, \<open>sys_getcwd\<close> the
    result of \<open>getcwd\<close>, \<open>None\<close> when they fail;
  \<^item> \<open>sys_popen cmd\<close> is the output read from the command (empty when \<open>popen\<close> fails);
  \<^item> \<open>sys_pipe_stdout\<close> and \<open>sys_pipe_stderr\<close> are the descriptor pairs the two calls of
    \<open>pipe\<close> give, \<open>None\<close> when the call returns -1;
  \<^item> \<open>sys_fork\<close> is the result of \<open>fork\<close>;
  \<^item> \<open>sys_waitpid p\<close> is the status \<open>waitpid\<close> stores for the child \<open>p\<close> once it has
    terminated, \<open>None\<close> when the child never terminates and the call never returns.
  Within one call every reading of the clock gives the same time; a hook command and a
  callback are taken to return, and \<open>waitpid\<close> to succeed when it returns.
\<close>

record os_view =
  sys_kill :: "int \<Rightarrow> int \<Rightarrow> int"
  sys_kill_ends_caller :: "int \<Rightarrow> int \<Rightarrow> bool"
  proc_stat :: "int \<Rightarrow> string option"
  proc_vmrss :: "int \<Rightarrow> nat option"
  sys_now :: int
  sys_stat :: "string \<Rightarrow> file_stat option"
  sys_pw_dir :: "string option"
  sys_getcwd :: "string option"
  sys_popen :: "string \<Rightarrow> string"
  sys_pipe_stdout :: "(int \<times> int) option"
  sys_pipe_stderr :: "(int \<times> int) option"
  sys_fork :: int
  sys_waitpid :: "int \<Rightarrow> wait_status option"

text \<open>Signal numbers of \<open>signal.h\<close> on Linux.\<close>

definition SIGKILL :: int where "SIGKILL = 9"
definition SIGTERM :: int where "SIGTERM = 15"
definition SIGCONT :: int where "SIGCONT = 18"
definition SIGSTOP :: int where "SIGSTOP = 19"

section \<open>Program state\<close>

text \<open>
  What the program does to the outside, in the order it does it: a call of the
  \<open>Logger\<close>, a call of a registered callback (named by its position in the list of
  callbacks), a signal sent, a hook command run before or after a launch, a \<open>waitpid\<close>.
  Closing a descriptor is not among them.
\<close>

datatype event =
    LogCall LogLevel string
  | Notify nat ProcessInfo
  | SysKill int int
  | PreLaunch string
  | PostLaunch string
  | SysWaitpid int

text \<open>
  The members of the \<open>ProcessMonitor\<close> and of the \<open>WineExecutor\<close> that share one
  \<open>Logger\<close>, the environment of the process (\<open>environ\<close>), and the events so far.
  A \<open>std::map\<close> is a list of pairs in ascending key order; a callback is a number.
\<close>

record app_state =
  monitored_processes :: "(int \<times> ProcessInfo) list"
  state_change_callbacks :: "nat list"
  config :: WineConfiguration
  custom_environment :: "(string \<times> string) list"
  pre_launch_commands :: "string list"
  post_launch_commands :: "string list"
  stdout_pipe :: "int \<times> int"
  stderr_pipe :: "int \<times> int"
  current_process_pid :: int
  execution_active :: bool
  environ :: "(string \<times> string) list"
  trace :: "event list"

text \<open>An event is added after the events so far.\<close>

definition emit :: "event \<Rightarrow> app_state \<Rightarrow> app_state" where
  "emit e s = s\<lparr>trace := trace s @ [e]\<rparr>"

text \<open>
  A call either returns to its caller, with a value and the state it leaves; or it is the
  forked child, where \<open>handle_child_process\<close> ends in \<open>execvpe\<close> of the command with the
  environment array (or in \<open>exit(1)\<close>) and never returns; or it waits for ever for a child
  that does not terminate, in the state it had when the wait began; or the program ends
  inside the call, killed by the signal it sends, in the state it had when it sent it.
\<close>

datatype 'a outcome =
    Returns 'a app_state
  | ChildExec "string list" "(string \<times> string) list"
  | Blocked app_state
  | Ended app_state

section \<open>Library functions the source calls\<close>

text \<open>\<open>std::to_string\<close> of an \<open>int\<close>.\<close>

fun string_of_nat :: "nat \<Rightarrow> string" where
  "string_of_nat n =
     (if n < 10 then [''0123456789'' ! n]
      else string_of_nat (n div 10) @ [''0123456789'' ! (n mod 10)])"

declare string_of_nat.simps [simp del]

definition to_string :: "int \<Rightarrow> string" where
  "to_string i = (if i < 0 then CHR ''-'' # string_of_nat (nat (- i)) else string_of_nat (nat i))"

text \<open>
  \<open>std::string::find\<close> and \<open>rfind\<close> of one character (\<open>find_last_of\<close> of one character
  is \<open>rfind\<close>); \<open>None\<close> is \<open>npos\<close>.
\<close>

fun str_find :: "char \<Rightarrow> string \<Rightarrow> nat option" where
  "str_find c [] = None"
| "str_find c (x # xs) = (if x = c then Some 0 else map_option Suc (str_find c xs))"

fun str_rfind :: "char \<Rightarrow> string \<Rightarrow> nat option" where
  "str_rfind c [] = None"
| "str_rfind c (x # xs) =
     (case str_rfind c xs of
        Some i \<Rightarrow> Some (Suc i)
      | None \<Rightarrow> if x = c then Some 0 else None)"

text \<open>\<open>::tolower\<close> in the C locale.\<close>

definition tolower :: "char \<Rightarrow> char" where
  "tolower c =
     (case map_of (zip ''ABCDEFGHIJKLMNOPQRSTUVWXYZ'' ''abcdefghijklmnopqrstuvwxyz'') c of
        Some l \<Rightarrow> l
      | None \<Rightarrow> c)"

text \<open>
  \<open>std::map\<close>: assignment through \<open>operator[]\<close> and \<open>erase\<close> of a key; \<open>find\<close> is
  \<open>map_of\<close>.
\<close>

fun map_assign :: "int \<Rightarrow> 'v \<Rightarrow> (int \<times> 'v) list \<Rightarrow> (int \<times> 'v) list" where
  "map_assign k v [] = [(k, v)]"
| "map_assign k v ((k', v') # rest) =
     (if k < k' then (k, v) # (k', v') # rest
      else if k = k' then (k, v) # rest
      else (k', v') # map_assign k v rest)"

definition map_erase :: "int \<Rightarrow> (int \<times> 'v) list \<Rightarrow> (int \<times> 'v) list" where
  "map_erase k table = filter (\<lambda>e. fst e \<noteq> k) table"

section \<open>Logger\<close>

text \<open>The calls the \<open>Logger\<close> receives; what it writes of them is its own business.\<close>

definition logger_log :: "LogLevel \<Rightarrow> string \<Rightarrow> app_state \<Rightarrow> app_state" where
  "logger_log level message s = emit (LogCall level message) s"

definition logger_debug :: "string \<Rightarrow> app_state \<Rightarrow> app_state" where
  "logger_debug = logger_log DEBUG"

definition logger_info :: "string \<Rightarrow> app_state \<Rightarrow> app_state" where
  "logger_info = logger_log INFO"

definition logger_warning :: "string \<Rightarrow> app_state \<Rightarrow> app_state" where
  "logger_warning = logger_log WARNING"

definition logger_error :: "string \<Rightarrow> app_state \<Rightarrow> app_state" where
  "logger_error = logger_log ERROR_LOG"

section \<open>ProcessMonitor\<close>

definition is_process_alive :: "os_view \<Rightarrow> int \<Rightarrow> bool" where
  "is_process_alive os p = (sys_kill os p 0 = 0)"

text \<open>Reads the stat file and returns 0.0 whether it opens or not.\<close>

definition calculate_cpu_usage :: "os_view \<Rightarrow> int \<Rightarrow> real" where
  "calculate_cpu_usage os p = (case proc_stat os p of None \<Rightarrow> 0 | Some line \<Rightarrow> 0)"

definition get_memory_usage :: "os_view \<Rightarrow> int \<Rightarrow> nat" where
  "get_memory_usage os p =
     (case proc_vmrss os p of None \<Rightarrow> 0 | Some v \<Rightarrow> (v * 1024) mod 2 ^ 64)"

text \<open>
  \<open>line.substr(last_paren + 2)\<close> throws \<open>std::out_of_range\<close> when the position is beyond
  the end of the line; nothing catches it, and the result is \<open>None\<close>. The first character
  of an empty \<open>after_comm\<close> is the terminating zero.
\<close>

definition get_process_state :: "os_view \<Rightarrow> int \<Rightarrow> ProcessState option" where
  "get_process_state os p =
     (case proc_stat os p of
        None \<Rightarrow> Some STOPPED
      | Some line \<Rightarrow>
          (case (str_find CHR ''('' line, str_rfind CHR '')'' line) of
             (Some first_paren, Some last_paren) \<Rightarrow>
               if length line < last_paren + 2 then None
               else
                 (let after_comm = drop (last_paren + 2) line;
                      st = (case after_comm of [] \<Rightarrow> CHR 0x00 | c # _ \<Rightarrow> c)
                  in Some (if st = CHR ''R'' then RUNNING
                           else if st = CHR ''S'' then RUNNING
                           else if st = CHR ''T'' then PAUSED
                           else if st = CHR ''Z'' then STOPPED
                           else RUNNING))
           | _ \<Rightarrow> Some ERROR))"

definition update_process_stats :: "os_view \<Rightarrow> ProcessInfo \<Rightarrow> ProcessInfo option" where
  "update_process_stats os info =
     (let info1 = info\<lparr>cpu_usage := calculate_cpu_usage os (pid info)\<rparr>;
          info2 = info1\<lparr>memory_usage := get_memory_usage os (pid info1)\<rparr>
      in map_option (\<lambda>st. info2\<lparr>state := st\<rparr>) (get_process_state os (pid info2)))"

text \<open>Every registered callback is called, in the order of registration.\<close>

definition notify_state_change :: "ProcessInfo \<Rightarrow> app_state \<Rightarrow> app_state" where
  "notify_state_change info s =
     s\<lparr>trace := trace s @ map (\<lambda>cb. Notify cb info) (state_change_callbacks s)\<rparr>"

text \<open>
  The \<open>for\<close> loop of one pass of \<open>monitor_loop\<close> over the entries still to visit: the
  entries as the pass leaves them, the vector \<open>dead_processes\<close>, and the state with the
  callbacks' events. \<open>None\<close> when \<open>update_process_stats\<close> throws.
\<close>

fun poll_entries ::
  "os_view \<Rightarrow> (int \<times> ProcessInfo) list \<Rightarrow> app_state \<Rightarrow>
     ((int \<times> ProcessInfo) list \<times> int list \<times> app_state) option" where
  "poll_entries os [] s = Some ([], [], s)"
| "poll_entries os ((k, info) # rest) s =
     (if \<not> is_process_alive os k then
        (let info' = info\<lparr>state := STOPPED, end_time := sys_now os\<rparr>
         in map_option (\<lambda>(es, dead, s'). ((k, info') # es, k # dead, s'))
              (poll_entries os rest (notify_state_change info' s)))
      else
        (case update_process_stats os info of
           None \<Rightarrow> None
         | Some info' \<Rightarrow>
             map_option (\<lambda>(es, dead, s'). ((k, info') # es, dead, s'))
               (poll_entries os rest s)))"

text \<open>One pass of the \<open>while\<close> loop of \<open>monitor_loop\<close>, under the mutex.\<close>

definition monitor_pass :: "os_view \<Rightarrow> app_state \<Rightarrow> app_state option" where
  "monitor_pass os s =
     map_option
       (\<lambda>(es, dead, s').
          fold (\<lambda>p. logger_info (''Process '' @ to_string p @ '' has terminated'')) dead
            (s'\<lparr>monitored_processes := es\<rparr>))
       (poll_entries os (monitored_processes s) s)"

text \<open>
  \<open>monitor_loop\<close>: one pass for each reading of the operating system taken while
  \<open>monitoring_active\<close> is set, the sleep between two passes left out.
\<close>

fun monitor_loop :: "os_view list \<Rightarrow> app_state \<Rightarrow> app_state option" where
  "monitor_loop [] s = Some s"
| "monitor_loop (os # oss) s =
     (case monitor_pass os s of None \<Rightarrow> None | Some s' \<Rightarrow> monitor_loop oss s')"

definition add_process :: "int \<Rightarrow> ProcessInfo \<Rightarrow> app_state \<Rightarrow> app_state" where
  "add_process p info s =
     logger_info (''Added process '' @ to_string p @ '' to monitoring'')
       (s\<lparr>monitored_processes := map_assign p info (monitored_processes s)\<rparr>)"

definition remove_process :: "int \<Rightarrow> app_state \<Rightarrow> app_state" where
  "remove_process p s =
     logger_info (''Removed process '' @ to_string p @ '' from monitoring'')
       (s\<lparr>monitored_processes := map_erase p (monitored_processes s)\<rparr>)"

definition get_process_info :: "int \<Rightarrow> app_state \<Rightarrow> ProcessInfo" where
  "get_process_info p s =
     (case map_of (monitored_processes s) p of
        Some info \<Rightarrow> info
      | None \<Rightarrow> ProcessInfo_value_init)"

definition get_all_processes :: "app_state \<Rightarrow> ProcessInfo list" where
  "get_all_processes s = map snd (monitored_processes s)"

definition register_callback :: "nat \<Rightarrow> app_state \<Rightarrow> app_state" where
  "register_callback cb s = s\<lparr>state_change_callbacks := state_change_callbacks s @ [cb]\<rparr>"

definition is_process_monitored :: "int \<Rightarrow> app_state \<Rightarrow> bool" where
  "is_process_monitored p s = (map_of (monitored_processes s) p \<noteq> None)"

definition pause_process :: "os_view \<Rightarrow> int \<Rightarrow> app_state \<Rightarrow> app_state" where
  "pause_process os p s =
     (let s1 = emit (SysKill p SIGSTOP) s
      in if sys_kill os p SIGSTOP = 0
         then logger_info (''Paused process '' @ to_string p) s1
         else logger_error (''Failed to pause process '' @ to_string p) s1)"

definition resume_process :: "os_view \<Rightarrow> int \<Rightarrow> app_state \<Rightarrow> app_state" where
  "resume_process os p s =
     (let s1 = emit (SysKill p SIGCONT) s
      in if sys_kill os p SIGCONT = 0
         then logger_info (''Resumed process '' @ to_string p) s1
         else logger_error (''Failed to resume process '' @ to_string p) s1)"

text \<open>
  The signal is the caller's choice, \<open>SIGTERM\<close> by default: sent to the calling program
  itself it ends the program inside \<open>kill\<close>, and the log call after it is not made.
\<close>

definition kill_process :: "os_view \<Rightarrow> int \<Rightarrow> int \<Rightarrow> app_state \<Rightarrow> unit outcome" where
  "kill_process os p sig s =
     (let s1 = emit (SysKill p sig) s
      in if sys_kill_ends_caller os p sig then Ended s1
         else if sys_kill os p sig = 0
         then Returns ()
                (logger_info
                   (''Sent signal '' @ to_string sig @ '' to process '' @ to_string p) s1)
         else Returns ()
                (logger_error (''Failed to send signal to process '' @ to_string p) s1))"

text \<open>\<open>WineApplicationManager::terminate_process\<close>.\<close>

definition terminate_process :: "os_view \<Rightarrow> int \<Rightarrow> app_state \<Rightarrow> unit outcome" where
  "terminate_process os p s =
     kill_process os p SIGTERM (logger_info (''Terminating process: '' @ to_string p) s)"

section \<open>Utils\<close>

definition file_exists :: "os_view \<Rightarrow> string \<Rightarrow> bool" where
  "file_exists os path = (case sys_stat os path of None \<Rightarrow> False | Some st \<Rightarrow> st_isreg st)"

text \<open>
  \<open>setenv\<close> and \<open>getenv\<close> on \<open>environ\<close>. \<open>setenv\<close> refuses an empty name and a name
  with \<open>=\<close> in it (\<open>EINVAL\<close>, which the source does not look at), keeps a variable that is
  there when \<open>overwrite\<close> is 0, and otherwise replaces it in place or adds it at the end.
\<close>

fun env_put :: "string \<Rightarrow> string \<Rightarrow> (string \<times> string) list \<Rightarrow> (string \<times> string) list" where
  "env_put name val [] = [(name, val)]"
| "env_put name val ((n, v) # rest) =
     (if n = name then (name, val) # rest else (n, v) # env_put name val rest)"

definition getenv :: "string \<Rightarrow> (string \<times> string) list \<Rightarrow> string option" where
  "getenv name env = map_of env name"

definition setenv ::
  "string \<Rightarrow> string \<Rightarrow> bool \<Rightarrow> (string \<times> string) list \<Rightarrow> (string \<times> string) list" where
  "setenv name val overwrite env =
     (if name = [] \<or> CHR ''='' \<in> set name then env
      else if \<not> overwrite \<and> getenv name env \<noteq> None then env
      else env_put name val env)"

definition get_home_directory :: "os_view \<Rightarrow> app_state \<Rightarrow> string" where
  "get_home_directory os s =
     (case getenv ''HOME'' (environ s) of
        Some home \<Rightarrow> home
      | None \<Rightarrow> (case sys_pw_dir os of Some d \<Rightarrow> d | None \<Rightarrow> ''/tmp''))"

definition get_current_directory :: "os_view \<Rightarrow> string" where
  "get_current_directory os = (case sys_getcwd os of Some d \<Rightarrow> d | None \<Rightarrow> [])"

text \<open>
  \<open>dot_pos > path.find_last_of('/')\<close> compares with \<open>npos\<close>, the largest \<open>size_t\<close>, when
  the path has no slash: the comparison is false and the extension is empty.
\<close>

definition get_extension :: "string \<Rightarrow> string" where
  "get_extension path =
     (case str_rfind CHR ''.'' path of
        None \<Rightarrow> []
      | Some dot_pos \<Rightarrow>
          (case str_rfind CHR ''/'' path of
             None \<Rightarrow> []
           | Some slash_pos \<Rightarrow> if slash_pos < dot_pos then drop dot_pos path else []))"

section \<open>WineExecutor\<close>

definition setup_environment :: "app_state \<Rightarrow> bool \<times> app_state" where
  "setup_environment s =
     (let cfg = config s;
          e1 = setenv ''WINEPREFIX'' (config_wine_prefix cfg) True (environ s);
          e2 = (if config_architecture cfg = WIN32 then setenv ''WINEARCH'' ''win32'' True e1
                else if config_architecture cfg = WIN64 then setenv ''WINEARCH'' ''win64'' True e1
                else e1);
          e3 = (if enable_virtual_desktop cfg \<and> virtual_desktop_resolution cfg \<noteq> []
                then setenv ''WINE_VD_RESOLUTION'' (virtual_desktop_resolution cfg) True e2
                else e2);
          e4 = (if enable_csmt cfg then setenv ''CSMT'' ''enabled'' True e3 else e3);
          e5 = (if enable_esync cfg then setenv ''WINEESYNC'' ''1'' True e4 else e4);
          e6 = (if enable_fsync cfg then setenv ''WINEFSYNC'' ''1'' True e5 else e5);
          e7 = (if audio_driver cfg \<noteq> []
                then setenv ''WINEDLLOVERRIDES'' ''winemapi.dll=n,b'' True e6 else e6);
          e8 = fold (\<lambda>pair. setenv (fst pair) (snd pair) True) (custom_environment s) e7;
          e9 = fold (\<lambda>pair. setenv (fst pair) (snd pair) True) (environment_variables cfg) e8
      in (True, logger_debug ''Environment setup completed'' (s\<lparr>environ := e9\<rparr>)))"

text \<open>The descriptors that are not -1 are closed and set to -1.\<close>

definition close_pipes :: "app_state \<Rightarrow> app_state" where
  "close_pipes s = s\<lparr>stdout_pipe := (- 1, - 1), stderr_pipe := (- 1, - 1)\<rparr>"

definition setup_pipes :: "os_view \<Rightarrow> app_state \<Rightarrow> bool \<times> app_state" where
  "setup_pipes os s =
     (let r1 = (if capture_stdout (config s)
                then (case sys_pipe_stdout os of
                        None \<Rightarrow> (False, logger_error ''Failed to create stdout pipe'' s)
                      | Some fds \<Rightarrow> (True, s\<lparr>stdout_pipe := fds\<rparr>))
                else (True, s))
      in if \<not> fst r1 then r1
         else if capture_stderr (config s)
         then (case sys_pipe_stderr os of
                 None \<Rightarrow>
                   (False, close_pipes (logger_error ''Failed to create stderr pipe'' (snd r1)))
               | Some fds \<Rightarrow> (True, (snd r1)\<lparr>stderr_pipe := fds\<rparr>))
         else (True, snd r1))"

definition build_wine_command :: "app_state \<Rightarrow> string \<Rightarrow> string list \<Rightarrow> string list" where
  "build_wine_command s exe_path args = wine_binary (config s) # exe_path # args"

definition execute_pre_launch_commands :: "os_view \<Rightarrow> app_state \<Rightarrow> bool \<times> app_state" where
  "execute_pre_launch_commands os s =
     (True,
      fold (\<lambda>cmd s'.
              logger_debug (''Pre-launch command output: '' @ sys_popen os cmd)
                (emit (PreLaunch cmd)
                   (logger_debug (''Executing pre-launch command: '' @ cmd) s')))
        (pre_launch_commands s) s)"

definition execute_post_launch_commands :: "os_view \<Rightarrow> app_state \<Rightarrow> bool \<times> app_state" where
  "execute_post_launch_commands os s =
     (True,
      fold (\<lambda>cmd s'.
              logger_debug (''Post-launch command output: '' @ sys_popen os cmd)
                (emit (PostLaunch cmd)
                   (logger_debug (''Executing post-launch command: '' @ cmd) s')))
        (post_launch_commands s) s)"

text \<open>The elements of \<open>dll_overrides\<close> joined with semicolons.\<close>

fun join_overrides :: "string list \<Rightarrow> string" where
  "join_overrides [] = []"
| "join_overrides [x] = x"
| "join_overrides (x # y # rest) = x @ '';'' @ join_overrides (y # rest)"

definition setup_dll_overrides :: "app_state \<Rightarrow> app_state" where
  "setup_dll_overrides s =
     (if dll_overrides (config s) \<noteq> [] then
        (let overrides = join_overrides (dll_overrides (config s))
         in logger_debug (''DLL overrides set: '' @ overrides)
              (s\<lparr>environ := setenv ''WINEDLLOVERRIDES'' overrides True (environ s)\<rparr>))
      else s)"

definition setup_registry_settings :: "app_state \<Rightarrow> app_state" where
  "setup_registry_settings s = logger_debug ''Setting up registry settings'' s"

definition validate_executable :: "os_view \<Rightarrow> string \<Rightarrow> app_state \<Rightarrow> bool \<times> app_state" where
  "validate_executable os exe_path s =
     (if \<not> file_exists os exe_path
      then (False, logger_error (''Executable not found: '' @ exe_path) s)
      else
        (let ext = map tolower (get_extension exe_path)
         in if ext \<noteq> ''.exe'' \<and> ext \<noteq> ''.msi'' \<and> ext \<noteq> ''.bat''
            then (True, logger_warning (''Unexpected file extension: '' @ ext) s)
            else (True, s)))"

definition resolve_path :: "os_view \<Rightarrow> app_state \<Rightarrow> string \<Rightarrow> string" where
  "resolve_path os s path =
     (case path of
        [] \<Rightarrow> path
      | c # rest \<Rightarrow>
          if c = CHR ''~'' then get_home_directory os s @ rest
          else if c \<noteq> CHR ''/'' then get_current_directory os @ ''/'' @ path
          else path)"

definition setup_graphics_environment :: "app_state \<Rightarrow> app_state" where
  "setup_graphics_environment s =
     (let e1 = (if graphics_driver (config s) = ''x11''
                then setenv ''DISPLAY'' '':0'' False (environ s)
                else if graphics_driver (config s) = ''wayland''
                then setenv ''WAYLAND_DISPLAY'' ''wayland-0'' False (environ s)
                else environ s);
          e2 = (if enable_dxvk (config s) then setenv ''DXVK_HUD'' ''devinfo,fps'' False e1
                else e1)
      in s\<lparr>environ := e2\<rparr>)"

definition setup_audio_environment :: "app_state \<Rightarrow> app_state" where
  "setup_audio_environment s =
     (if audio_driver (config s) = ''alsa''
      then s\<lparr>environ := setenv ''WINE_AUDIO_DRIVER'' ''alsa'' True (environ s)\<rparr>
      else if audio_driver (config s) = ''pulse''
      then s\<lparr>environ := setenv ''WINE_AUDIO_DRIVER'' ''pulse'' True (environ s)\<rparr>
      else if audio_driver (config s) = ''oss''
      then s\<lparr>environ := setenv ''WINE_AUDIO_DRIVER'' ''oss'' True (environ s)\<rparr>
      else s)"

text \<open>
  \<open>build_environment_array\<close> copies \<open>environ\<close>: the child gets the environment of the
  process as the \<open>setenv\<close> calls left it.
\<close>

definition build_environment_array :: "app_state \<Rightarrow> (string \<times> string) list" where
  "build_environment_array s = environ s"

text \<open>The result is \<open>None\<close> when \<open>waitpid\<close> never returns.\<close>

definition wait_for_process ::
  "os_view \<Rightarrow> int \<Rightarrow> app_state \<Rightarrow> int option \<times> app_state" where
  "wait_for_process os p s =
     (case sys_waitpid os p of
        None \<Rightarrow> None
      | Some (Exited code) \<Rightarrow> Some code
      | Some (Signaled sig) \<Rightarrow> Some (- sig)
      | Some _ \<Rightarrow> Some (- 1),
      emit (SysWaitpid p) s)"

text \<open>
  The five set-up calls of \<open>execute\<close>, in its order.
\<close>

definition setup_launch :: "app_state \<Rightarrow> app_state" where
  "setup_launch s =
     setup_registry_settings
       (setup_audio_environment
          (setup_graphics_environment
             (setup_dll_overrides (snd (setup_environment s)))))"

text \<open>
  \<open>info0\<close> is the local variable \<open>info\<close> as its declaration leaves it: the members the
  source does not assign keep their default-constructed value when they have a
  constructor, and whatever \<open>info0\<close> holds when they are scalars (\<open>memory_usage\<close>,
  \<open>cpu_usage\<close>).
\<close>

definition execute ::
  "os_view \<Rightarrow> ProcessInfo \<Rightarrow> string \<Rightarrow> string list \<Rightarrow> app_state \<Rightarrow> int outcome" where
  "execute os info0 exe_path args s =
     (let resolved_path = resolve_path os s exe_path;
          v = validate_executable os resolved_path s
      in if \<not> fst v then Returns (- 1) (snd v)
         else
           (let pre = execute_pre_launch_commands os
                        (logger_info (''Executing: '' @ resolved_path) (snd v))
            in if \<not> fst pre
               then Returns (- 1) (logger_error ''Pre-launch commands failed'' (snd pre))
               else
                 (let pipes = setup_pipes os (setup_launch (snd pre))
                  in if \<not> fst pipes then Returns (- 1) (snd pipes)
                     else
                       (let s5 = snd pipes;
                            command = build_wine_command s5 resolved_path args;
                            child = sys_fork os
                        in if child = - 1
                           then Returns (- 1)
                                  (close_pipes (logger_error ''Failed to fork process'' s5))
                           else if child = 0
                           then ChildExec command (build_environment_array s5)
                           else
                             (let s6 = s5\<lparr>current_process_pid := child,
                                          execution_active := True\<rparr>;
                                  info = info0
                                    \<lparr>pid := child,
                                     state := STARTING,
                                     executable_path := resolved_path,
                                     arguments := args,
                                     environment := [],
                                     start_time := sys_now os,
                                     end_time := 0,
                                     exit_code := 0,
                                     stdout_data := [],
                                     stderr_data := [],
                                     wine_prefix := config_wine_prefix (config s6),
                                     architecture := config_architecture (config s6)\<rparr>
                              in Returns child
                                   (logger_info
                                      (''Started process with PID: '' @ to_string child)
                                      (add_process child info s6)))))))"

definition execute_async ::
  "os_view \<Rightarrow> ProcessInfo \<Rightarrow> string \<Rightarrow> string list \<Rightarrow> app_state \<Rightarrow> bool outcome" where
  "execute_async os info0 exe_path args s =
     (case execute os info0 exe_path args s of
        Returns p s' \<Rightarrow> Returns (0 < p) s'
      | ChildExec command env \<Rightarrow> ChildExec command env
      | Blocked s' \<Rightarrow> Blocked s'
      | Ended s' \<Rightarrow> Ended s')"

definition execute_sync ::
  "os_view \<Rightarrow> ProcessInfo \<Rightarrow> string \<Rightarrow> string list \<Rightarrow> app_state \<Rightarrow> int outcome" where
  "execute_sync os info0 exe_path args s =
     (case execute os info0 exe_path args s of
        ChildExec command env \<Rightarrow> ChildExec command env
      | Blocked s' \<Rightarrow> Blocked s'
      | Ended s' \<Rightarrow> Ended s'
      | Returns p s1 \<Rightarrow>
          if p \<le> 0 then Returns (- 1) s1
          else
            (let w = wait_for_process os p s1
             in case fst w of
                  None \<Rightarrow> Blocked (snd w)
                | Some code \<Rightarrow>
                    (let s3 = snd (execute_post_launch_commands os (snd w));
                         s4 = close_pipes (s3\<lparr>execution_active := False\<rparr>)
                     in Returns code
                          (logger_info
                             (''Process '' @ to_string p @ '' exited with code: ''
                              @ to_string code)
                             s4))))"

section \<open>Notions used in the statements\<close>

text \<open>
  The entries whose identifier fails the liveness probe, and the callback calls one pass
  makes for a table: for each such entry, in table order, one call of each callback, in
  registration order, with the entry as the pass leaves it.
\<close>

definition dead_entries :: "os_view \<Rightarrow> (int \<times> ProcessInfo) list \<Rightarrow> (int \<times> ProcessInfo) list" where
  "dead_entries os es = filter (\<lambda>e. \<not> is_process_alive os (fst e)) es"

definition pass_notifications :: "os_view \<Rightarrow> nat list \<Rightarrow> (int \<times> ProcessInfo) list \<Rightarrow> event list" where
  "pass_notifications os cbs es =
     concat (map (\<lambda>e. map (\<lambda>cb. Notify cb ((snd e)\<lparr>state := STOPPED, end_time := sys_now os\<rparr>)) cbs)
                 (dead_entries os es))"

text \<open>
  The events that are post-launch hook commands; the events that running a list of hook
  commands after, or before, a launch produces.
\<close>

fun is_post_launch :: "event \<Rightarrow> bool" where
  "is_post_launch (PostLaunch cmd) = True"
| "is_post_launch e = False"

definition post_launch_events :: "os_view \<Rightarrow> string list \<Rightarrow> event list" where
  "post_launch_events os cmds =
     concat (map (\<lambda>cmd. [LogCall DEBUG (''Executing post-launch command: '' @ cmd),
                          PostLaunch cmd,
                          LogCall DEBUG (''Post-launch command output: '' @ sys_popen os cmd)])
                 cmds)"

definition pre_launch_events :: "os_view \<Rightarrow> string list \<Rightarrow> event list" where
  "pre_launch_events os cmds =
     concat (map (\<lambda>cmd. [LogCall DEBUG (''Executing pre-launch command: '' @ cmd),
                          PreLaunch cmd,
                          LogCall DEBUG (''Pre-launch command output: '' @ sys_popen os cmd)])
                 cmds)"

text \<open>
  The events a launch of the resolved path \<open>rp\<close> adds after the validation, up to its
  return with the identifier \<open>child\<close>: the log calls and the pre-launch hooks in the
  order of \<open>execute\<close>.
\<close>

definition launch_events :: "os_view \<Rightarrow> app_state \<Rightarrow> string \<Rightarrow> int \<Rightarrow> event list" where
  "launch_events os s rp child =
     [LogCall INFO (''Executing: '' @ rp)]
     @ pre_launch_events os (pre_launch_commands s)
     @ [LogCall DEBUG ''Environment setup completed'']
     @ (if dll_overrides (config s) \<noteq> []
        then [LogCall DEBUG (''DLL overrides set: '' @ join_overrides (dll_overrides (config s)))]
        else [])
     @ [LogCall DEBUG ''Setting up registry settings'',
        LogCall INFO (''Added process '' @ to_string child @ '' to monitoring''),
        LogCall INFO (''Started process with PID: '' @ to_string child)]"

text \<open>
  The state the synchronous variant returns with, from the state \<open>s1\<close> the launch left:
  the events of the wait, of the post-launch hooks in their order and of the last log call
  are added, the executor is inactive and its pipes are closed.
\<close>

definition after_wait :: "os_view \<Rightarrow> int \<Rightarrow> int \<Rightarrow> app_state \<Rightarrow> app_state" where
  "after_wait os p code s1 =
     s1\<lparr>trace :=
          trace s1 @ [SysWaitpid p]
          @ post_launch_events os (post_launch_commands s1)
          @ [LogCall INFO
               (''Process '' @ to_string p @ '' exited with code: '' @ to_string code)],
        execution_active := False,
        stdout_pipe := (- 1, - 1), stderr_pipe := (- 1, - 1)\<rparr>"

text \<open>
  What the launch leaves as it is up to the \<open>fork\<close>: the table, the callbacks, the
  configuration, the custom variables, the post-launch commands and the post-launch events.
\<close>

definition same_tables :: "app_state \<Rightarrow> app_state \<Rightarrow> bool" where
  "same_tables s' s \<longleftrightarrow>
     monitored_processes s' = monitored_processes s
     \<and> state_change_callbacks s' = state_change_callbacks s
     \<and> config s' = config s
     \<and> custom_environment s' = custom_environment s
     \<and> post_launch_commands s' = post_launch_commands s
     \<and> filter is_post_launch (trace s') = filter is_post_launch (trace s)"

text \<open>
  The value and the state a call returns with; nothing when it does not return.
\<close>

fun returned_value :: "'a outcome \<Rightarrow> 'a option" where
  "returned_value (Returns v s) = Some v"
| "returned_value (ChildExec command env) = None"
| "returned_value (Blocked s) = None"
| "returned_value (Ended s) = None"

fun returned_state :: "'a outcome \<Rightarrow> app_state option" where
  "returned_state (Returns v s) = Some s"
| "returned_state (ChildExec command env) = None"
| "returned_state (Blocked s) = None"
| "returned_state (Ended s) = None"

text \<open>
  The environment of the child, source by source. A name \<open>setenv\<close> accepts;
  the variables that are written only when nothing defines them (graphics); the variables
  \<open>setup_environment\<close> writes before the user's; the user's variables, those of the
  configuration over the custom ones of the executor; the variables written after the
  user's (the DLL override list and the audio driver); and the value a name has after all
  of them, the later writer winning.
\<close>

definition valid_name :: "string \<Rightarrow> bool" where
  "valid_name name \<longleftrightarrow> name \<noteq> [] \<and> CHR ''='' \<notin> set name"

definition default_value :: "WineConfiguration \<Rightarrow> string \<Rightarrow> string option" where
  "default_value cfg k =
     (if k = ''DXVK_HUD'' \<and> enable_dxvk cfg then Some ''devinfo,fps''
      else if k = ''DISPLAY'' \<and> graphics_driver cfg = ''x11'' then Some '':0''
      else if k = ''WAYLAND_DISPLAY'' \<and> graphics_driver cfg = ''wayland'' then Some ''wayland-0''
      else None)"

definition early_feature_value :: "WineConfiguration \<Rightarrow> string \<Rightarrow> string option" where
  "early_feature_value cfg k =
     (if k = ''WINEDLLOVERRIDES'' \<and> audio_driver cfg \<noteq> [] then Some ''winemapi.dll=n,b''
      else if k = ''WINEFSYNC'' \<and> enable_fsync cfg then Some ''1''
      else if k = ''WINEESYNC'' \<and> enable_esync cfg then Some ''1''
      else if k = ''CSMT'' \<and> enable_csmt cfg then Some ''enabled''
      else if k = ''WINE_VD_RESOLUTION'' \<and> enable_virtual_desktop cfg
              \<and> virtual_desktop_resolution cfg \<noteq> []
      then Some (virtual_desktop_resolution cfg)
      else if k = ''WINEARCH'' \<and> config_architecture cfg = WIN32 then Some ''win32''
      else if k = ''WINEARCH'' \<and> config_architecture cfg = WIN64 then Some ''win64''
      else if k = ''WINEPREFIX'' then Some (config_wine_prefix cfg)
      else None)"

definition user_value :: "app_state \<Rightarrow> string \<Rightarrow> string option" where
  "user_value s k =
     (case map_of (environment_variables (config s)) k of
        Some v \<Rightarrow> Some v
      | None \<Rightarrow> map_of (custom_environment s) k)"

definition late_feature_value :: "WineConfiguration \<Rightarrow> string \<Rightarrow> string option" where
  "late_feature_value cfg k =
     (if k = ''WINE_AUDIO_DRIVER'' \<and> audio_driver cfg \<in> {''alsa'', ''pulse'', ''oss''}
      then Some (audio_driver cfg)
      else if k = ''WINEDLLOVERRIDES'' \<and> dll_overrides cfg \<noteq> []
      then Some (join_overrides (dll_overrides cfg))
      else None)"

definition assembled_value :: "app_state \<Rightarrow> string \<Rightarrow> string option" where
  "assembled_value s k =
     (case late_feature_value (config s) k of
        Some v \<Rightarrow> Some v
      | None \<Rightarrow>
          (case user_value s k of
             Some v \<Rightarrow> Some v
           | None \<Rightarrow>
               (case early_feature_value (config s) k of
                  Some v \<Rightarrow> Some v
                | None \<Rightarrow>
                    (case getenv k (environ s) of
                       Some v \<Rightarrow> Some v
                     | None \<Rightarrow> default_value (config s) k))))"

section \<open>Example inputs\<close>

text \<open>
  The configuration the constructor of \<open>WineConfiguration\<close> builds for the home directory
  \<open>/home/u\<close>; an operating system in which process 4242 exists and is stopped, three
  regular files exist, and \<open>fork\<close> gives 4242; one in which no process answers a signal;
  a manager with nothing tracked, and one that tracks process 4242.
\<close>

definition example_config :: WineConfiguration where
  "example_config =
     \<lparr>config_wine_prefix = ''/home/u/.wine'', wine_binary = ''wine'',
      config_architecture = AUTO_DETECT, environment_variables = [], dll_overrides = [],
      virtual_desktop_resolution = [], enable_virtual_desktop = False, enable_csmt = True,
      enable_dxvk = False, enable_esync = True, enable_fsync = False,
      audio_driver = ''alsa'', graphics_driver = ''x11'', nice_level = 0,
      capture_stdout = True, capture_stderr = True\<rparr>"

definition example_os :: os_view where
  "example_os =
     \<lparr>sys_kill = (\<lambda>p sig. if p = 4242 then 0 else - 1),
      sys_kill_ends_caller = (\<lambda>p sig. p = 0 \<and> (sig = 9 \<or> sig = 15)),
      proc_stat = (\<lambda>p. if p = 4242 then Some ''4242 (wine) T 1 4242'' else None),
      proc_vmrss = (\<lambda>p. if p = 4242 then Some 2048 else None),
      sys_now = 1000,
      sys_stat = (\<lambda>path.
         if path = ''/opt/app/game.exe'' then Some \<lparr>st_isreg = True, st_readable = True\<rparr>
         else if path = ''/opt/app/locked.exe'' then Some \<lparr>st_isreg = True, st_readable = False\<rparr>
         else if path = ''/opt/app/notes.txt'' then Some \<lparr>st_isreg = True, st_readable = True\<rparr>
         else None),
      sys_pw_dir = Some ''/home/u'', sys_getcwd = Some ''/opt/app'',
      sys_popen = (\<lambda>cmd. []),
      sys_pipe_stdout = Some (3, 4), sys_pipe_stderr = Some (5, 6),
      sys_fork = 4242,
      sys_waitpid = (\<lambda>p. Some (Exited 0))\<rparr>"

definition dead_os :: "int \<Rightarrow> os_view" where
  "dead_os t = example_os\<lparr>sys_kill := (\<lambda>p sig. - 1), sys_now := t\<rparr>"

text \<open>
  The operating system of \<open>example_os\<close> after process 4242 has terminated and before
  anyone has waited for it: the zombie still answers the liveness probe, and its stat file
  gives the run-state \<open>Z\<close>.
\<close>

definition zombie_os :: os_view where
  "zombie_os =
     example_os\<lparr>proc_stat := (\<lambda>p. if p = 4242 then Some ''4242 (wine) Z 1 4242'' else None),
                proc_vmrss := (\<lambda>p. None)\<rparr>"

definition example_state :: app_state where
  "example_state =
     \<lparr>monitored_processes = [], state_change_callbacks = [], config = example_config,
      custom_environment = [], pre_launch_commands = [], post_launch_commands = [],
      stdout_pipe = (- 1, - 1), stderr_pipe = (- 1, - 1), current_process_pid = - 1,
      execution_active = False, environ = [(''HOME'', ''/home/u'')], trace = []\<rparr>"

definition example_info :: ProcessInfo where
  "example_info =
     ProcessInfo_value_init\<lparr>pid := 4242, state := RUNNING,
       executable_path := ''/opt/app/game.exe'', start_time := 900\<rparr>"

definition tracked_state :: "ProcessInfo \<Rightarrow> app_state" where
  "tracked_state info =
     example_state\<lparr>monitored_processes := [(4242, info)], state_change_callbacks := [0]\<rparr>"

text \<open>
  The manager \<open>example_state\<close> after the launch of \<open>game.exe\<close> with no arguments
  in \<open>example_os\<close>.
\<close>

definition example_launched :: app_state where
  "example_launched =
     example_state
       \<lparr>monitored_processes :=
          [(4242, \<lparr>pid = 4242, state = STARTING, executable_path = ''/opt/app/game.exe'',
              arguments = [], environment = [], start_time = 1000, end_time = 0,
              exit_code = 0, stdout_data = [], stderr_data = [], memory_usage = 0,
              cpu_usage = 0, wine_prefix = ''/home/u/.wine'', architecture = AUTO_DETECT\<rparr>)],
        stdout_pipe := (3, 4), stderr_pipe := (5, 6), current_process_pid := 4242,
        execution_active := True,
        environ :=
          [(''HOME'', ''/home/u''), (''WINEPREFIX'', ''/home/u/.wine''),
           (''CSMT'', ''enabled''), (''WINEESYNC'', ''1''),
           (''WINEDLLOVERRIDES'', ''winemapi.dll=n,b''), (''DISPLAY'', '':0''),
           (''WINE_AUDIO_DRIVER'', ''alsa'')],
        trace :=
          [LogCall INFO ''Executing: /opt/app/game.exe'',
           LogCall DEBUG ''Environment setup completed'',
           LogCall DEBUG ''Setting up registry settings'',
           LogCall INFO ''Added process 4242 to monitoring'',
           LogCall INFO ''Started process with PID: 4242'']\<rparr>"

section \<open>Evaluation rules\<close>

lemmas ex_defs = example_config_def example_os_def dead_os_def example_state_def example_info_def
  tracked_state_def ProcessInfo_value_init_def

lemmas num_defs = to_string_def string_of_nat.simps SIGSTOP_def SIGCONT_def SIGTERM_def SIGKILL_def

lemmas log_defs = logger_log_def emit_def logger_info_def logger_error_def logger_debug_def logger_warning_def

section \<open>Properties of one pass of the monitor\<close>

lemma logger_log_fields [simp]:
  "monitored_processes (logger_log l m s) = monitored_processes s"
  "state_change_callbacks (logger_log l m s) = state_change_callbacks s"
  "trace (logger_log l m s) = trace s @ [LogCall l m]"
  by (simp_all add: logger_log_def emit_def)

lemma notify_fields [simp]:
  "monitored_processes (notify_state_change i s) = monitored_processes s"
  "state_change_callbacks (notify_state_change i s) = state_change_callbacks s"
  "trace (notify_state_change i s) = trace s @ map (\<lambda>cb. Notify cb i) (state_change_callbacks s)"
  by (simp_all add: notify_state_change_def)
lemma poll_entries_keys:
  "poll_entries os es s = Some (es', dead, s') \<Longrightarrow> map fst es' = map fst es"
proof (induction es arbitrary: s es' dead s')
  case Nil
  then show ?case by simp
next
  case (Cons e es)
  obtain k info where e: "e = (k, info)" by (cases e)
  from Cons.prems Cons.IH show ?case unfolding e
    by (auto simp: Let_def split: if_splits option.splits)
qed

lemma poll_entries_dead:
  "poll_entries os es s = Some (es', dead, s') \<Longrightarrow> dead = map fst (dead_entries os es)"
proof (induction es arbitrary: s es' dead s')
  case Nil
  then show ?case by (simp add: dead_entries_def)
next
  case (Cons e es)
  obtain k info where e: "e = (k, info)" by (cases e)
  from Cons.prems Cons.IH show ?case unfolding e
    by (auto simp: Let_def dead_entries_def split: if_splits option.splits)
qed

lemma poll_entries_state:
  "poll_entries os es s = Some (es', dead, s') \<Longrightarrow>
   s' = s\<lparr>trace := trace s @ pass_notifications os (state_change_callbacks s) es\<rparr>"
proof (induction es arbitrary: s es' dead s')
  case Nil
  then show ?case by (simp add: pass_notifications_def dead_entries_def)
next
  case (Cons e es)
  obtain k info where e: "e = (k, info)" by (cases e)
  show ?case
  proof (cases "is_process_alive os k")
    case True
    with Cons.prems obtain es0 where
      "poll_entries os es s = Some (es0, dead, s')"
      unfolding e by (auto split: option.splits)
    from Cons.IH[OF this] True show ?thesis
      unfolding e by (simp add: pass_notifications_def dead_entries_def)
  next
    case False
    let ?i = "info\<lparr>state := STOPPED, end_time := sys_now os\<rparr>"
    from False Cons.prems obtain es0 dead0 where
      "poll_entries os es (notify_state_change ?i s) = Some (es0, dead0, s')"
      unfolding e by (auto simp: Let_def)
    from Cons.IH[OF this] False show ?thesis
      unfolding e by (simp add: pass_notifications_def dead_entries_def notify_state_change_def)
  qed
qed

lemma poll_entries_lookup:
  "poll_entries os es s = Some (es', dead, s') \<Longrightarrow>
   map_of es' k =
     (case map_of es k of
        None \<Rightarrow> None
      | Some info \<Rightarrow>
          if is_process_alive os k then update_process_stats os info
          else Some (info\<lparr>state := STOPPED, end_time := sys_now os\<rparr>))"
proof (induction es arbitrary: s es' dead s')
  case Nil
  then show ?case by simp
next
  case (Cons e es)
  obtain k' info where e: "e = (k', info)" by (cases e)
  from Cons.prems Cons.IH show ?case unfolding e
    by (auto simp: Let_def split: if_splits option.splits)
qed

lemma fold_logger_info:
  "fold (\<lambda>p. logger_info (f p)) ps s = s\<lparr>trace := trace s @ map (\<lambda>p. LogCall INFO (f p)) ps\<rparr>"
  by (induction ps arbitrary: s) (simp_all add: logger_info_def logger_log_def emit_def)

lemma monitor_pass_result:
  assumes "monitor_pass os s = Some s'"
  shows "\<exists>es'. poll_entries os (monitored_processes s) s =
            Some (es', map fst (dead_entries os (monitored_processes s)),
                  s\<lparr>trace := trace s @ pass_notifications os (state_change_callbacks s) (monitored_processes s)\<rparr>)
        \<and> s' = s\<lparr>trace := trace s @ pass_notifications os (state_change_callbacks s) (monitored_processes s)
                    @ map (\<lambda>p. LogCall INFO (''Process '' @ to_string p @ '' has terminated''))
                        (map fst (dead_entries os (monitored_processes s))),
                 monitored_processes := es'\<rparr>"
proof -
  from assms obtain es' dead s1 where p: "poll_entries os (monitored_processes s) s = Some (es', dead, s1)"
    and s': "s' = fold (\<lambda>p. logger_info (''Process '' @ to_string p @ '' has terminated'')) dead
            (s1\<lparr>monitored_processes := es'\<rparr>)"
    by (auto simp: monitor_pass_def)
  note d = poll_entries_dead[OF p] and st = poll_entries_state[OF p]
  show ?thesis
    apply (rule exI[of _ es'])
    using p d st s' by (simp add: fold_logger_info)
qed

lemma signal_ops_table [simp]:
  "monitored_processes (pause_process os p s) = monitored_processes s"
  "monitored_processes (resume_process os p s) = monitored_processes s"
  by (simp_all add: pause_process_def resume_process_def log_defs Let_def)

lemma monitor_pass_lookup:
  assumes "monitor_pass os s = Some s'"
  shows "map_of (monitored_processes s') k =
     (case map_of (monitored_processes s) k of
        None \<Rightarrow> None
      | Some info \<Rightarrow>
          if is_process_alive os k then update_process_stats os info
          else Some (info\<lparr>state := STOPPED, end_time := sys_now os\<rparr>))"
proof -
  from monitor_pass_result[OF assms] obtain es' where
    p: "poll_entries os (monitored_processes s) s =
            Some (es', map fst (dead_entries os (monitored_processes s)),
                  s\<lparr>trace := trace s @ pass_notifications os (state_change_callbacks s) (monitored_processes s)\<rparr>)"
    and s': "monitored_processes s' = es'"
    by auto
  from poll_entries_lookup[OF p] s' show ?thesis by simp
qed

lemma monitor_pass_keys:
  assumes "monitor_pass os s = Some s'"
  shows "map fst (monitored_processes s') = map fst (monitored_processes s)"
proof -
  from monitor_pass_result[OF assms] obtain es' where
    p: "poll_entries os (monitored_processes s) s =
            Some (es', map fst (dead_entries os (monitored_processes s)),
                  s\<lparr>trace := trace s @ pass_notifications os (state_change_callbacks s) (monitored_processes s)\<rparr>)"
    and s': "monitored_processes s' = es'"
    by auto
  from poll_entries_keys[OF p] s' show ?thesis by simp
qed

lemma monitor_pass_trace:
  assumes "monitor_pass os s = Some s'"
  shows "trace s' = trace s
           @ pass_notifications os (state_change_callbacks s) (monitored_processes s)
           @ map (\<lambda>p. LogCall INFO (''Process '' @ to_string p @ '' has terminated''))
               (map fst (dead_entries os (monitored_processes s)))"
  using monitor_pass_result[OF assms] by auto

lemma monitored_iff_key:
  "is_process_monitored p s \<longleftrightarrow> p \<in> set (map fst (monitored_processes s))"
  by (simp add: is_process_monitored_def map_of_eq_None_iff)
lemma monitor_loop_keys:
  "monitor_loop oss s = Some s' \<Longrightarrow> map fst (monitored_processes s') = map fst (monitored_processes s)"
proof (induction oss arbitrary: s)
  case Nil
  then show ?case by simp
next
  case (Cons os oss)
  then obtain s1 where p: "monitor_pass os s = Some s1" and l: "monitor_loop oss s1 = Some s'"
    by (auto split: option.splits)
  from Cons.IH[OF l] monitor_pass_keys[OF p] show ?case by simp
qed

lemma str_find_member: "c \<in> set xs \<Longrightarrow> str_find c xs \<noteq> None"
  by (induction xs) auto

lemma str_rfind_absent: "c \<notin> set xs \<Longrightarrow> str_rfind c xs = None"
  by (induction xs) auto

lemma str_rfind_last:
  "c \<notin> set ys \<Longrightarrow> str_rfind c (xs @ c # ys) = Some (length xs)"
  by (induction xs) (simp_all add: str_rfind_absent)

lemma get_process_state_line:
  assumes "proc_stat os p = Some (pre @ CHR '')'' # sp # c # rest)"
    and "CHR ''('' \<in> set pre" and "CHR '')'' \<notin> set (sp # c # rest)"
  shows "get_process_state os p =
           Some (if c = CHR ''T'' then PAUSED else if c = CHR ''Z'' then STOPPED else RUNNING)"
proof -
  let ?line = "pre @ CHR '')'' # sp # c # rest"
  from assms(2) have "CHR ''('' \<in> set ?line" by simp
  from str_find_member[OF this] obtain i where f: "str_find CHR ''('' ?line = Some i" by auto
  from assms(3) have r: "str_rfind CHR '')'' ?line = Some (length pre)"
    by (rule str_rfind_last)
  show ?thesis
    using assms(1) f r by (simp add: get_process_state_def)
qed

lemma poll_entries_total:
  assumes "\<forall>e \<in> set es. is_process_alive os (fst e) \<longrightarrow> get_process_state os (pid (snd e)) \<noteq> None"
  shows "poll_entries os es s \<noteq> None"
  using assms
proof (induction es arbitrary: s)
  case Nil
  then show ?case by simp
next
  case (Cons e es)
  obtain k info where e: "e = (k, info)" by (cases e)
  from Cons.prems have rest: "\<forall>e \<in> set es. is_process_alive os (fst e) \<longrightarrow> get_process_state os (pid (snd e)) \<noteq> None"
    by simp
  show ?case
  proof (cases "is_process_alive os k")
    case True
    with Cons.prems obtain st where "get_process_state os (pid info) = Some st"
      unfolding e by auto
    then obtain info' where "update_process_stats os info = Some info'"
      by (simp add: update_process_stats_def Let_def)
    with True Cons.IH[OF rest, of s] show ?thesis unfolding e by auto
  next
    case False
    with Cons.IH[OF rest] show ?thesis unfolding e by (auto simp: Let_def)
  qed
qed

lemma monitor_pass_total:
  assumes "\<forall>e \<in> set (monitored_processes s).
             is_process_alive os (fst e) \<longrightarrow> get_process_state os (pid (snd e)) \<noteq> None"
  shows "monitor_pass os s \<noteq> None"
  using poll_entries_total[OF assms, of s] by (simp add: monitor_pass_def)

section \<open>Properties of the launch\<close>

lemmas exec_eval = execute_def resolve_path_def validate_executable_def file_exists_def
  get_extension_def tolower_def get_home_directory_def get_current_directory_def getenv_def
  setenv_def execute_pre_launch_commands_def setup_launch_def setup_environment_def
  setup_dll_overrides_def setup_graphics_environment_def setup_audio_environment_def
  setup_registry_settings_def setup_pipes_def close_pipes_def build_wine_command_def
  build_environment_array_def add_process_def execute_sync_def execute_async_def
  execute_post_launch_commands_def wait_for_process_def get_process_info_def
  get_all_processes_def is_process_monitored_def

lemma map_of_map_assign:
  "map_of (map_assign k v t) k' = (if k' = k then Some v else map_of t k')"
  by (induction t) auto

lemma pre_launch_state:
  "snd (execute_pre_launch_commands os s) =
     s\<lparr>trace := trace s @ pre_launch_events os (pre_launch_commands s)\<rparr>"
proof -
  have "fold (\<lambda>cmd s'.
              logger_debug (''Pre-launch command output: '' @ sys_popen os cmd)
                (emit (PreLaunch cmd)
                   (logger_debug (''Executing pre-launch command: '' @ cmd) s'))) cmds s0
        = s0\<lparr>trace := trace s0 @ pre_launch_events os cmds\<rparr>" for cmds s0
    by (induction cmds arbitrary: s0) (simp_all add: pre_launch_events_def log_defs)
  then show ?thesis by (simp add: execute_pre_launch_commands_def)
qed

lemma post_launch_state:
  "snd (execute_post_launch_commands os s) =
     s\<lparr>trace := trace s @ post_launch_events os (post_launch_commands s)\<rparr>"
proof -
  have "fold (\<lambda>cmd s'.
              logger_debug (''Post-launch command output: '' @ sys_popen os cmd)
                (emit (PostLaunch cmd)
                   (logger_debug (''Executing post-launch command: '' @ cmd) s'))) cmds s0
        = s0\<lparr>trace := trace s0 @ post_launch_events os cmds\<rparr>" for cmds s0
    by (induction cmds arbitrary: s0) (simp_all add: post_launch_events_def log_defs)
  then show ?thesis by (simp add: execute_post_launch_commands_def)
qed

lemma pre_launch_no_post: "filter is_post_launch (pre_launch_events os cmds) = []"
  by (induction cmds) (simp_all add: pre_launch_events_def)
lemma same_tables_refl [simp]: "same_tables s s"
  by (simp add: same_tables_def)

lemma same_tables_trans: "same_tables s2 s1 \<Longrightarrow> same_tables s1 s \<Longrightarrow> same_tables s2 s"
  by (simp add: same_tables_def)

lemma same_logger [simp]: "same_tables (logger_log l m s) s"
  by (simp add: same_tables_def logger_log_def emit_def)

lemma same_validate: "same_tables (snd (validate_executable os rp s)) s"
  by (simp add: validate_executable_def Let_def logger_error_def logger_warning_def)

lemma same_pre_launch: "same_tables (snd (execute_pre_launch_commands os s)) s"
  by (simp add: pre_launch_state same_tables_def pre_launch_no_post)

lemma setup_environment_shape:
  "setup_environment s =
     (True, logger_debug ''Environment setup completed''
              (s\<lparr>environ := environ (snd (setup_environment s))\<rparr>))"
  by (simp add: setup_environment_def Let_def log_defs)

lemma same_setup_environment: "same_tables (snd (setup_environment s)) s"
  by (subst setup_environment_shape) (simp add: same_tables_def log_defs)

lemma same_setup_dll_overrides: "same_tables (setup_dll_overrides s) s"
  by (simp add: same_tables_def setup_dll_overrides_def log_defs Let_def)

lemma same_setup_graphics: "same_tables (setup_graphics_environment s) s"
  by (simp add: same_tables_def setup_graphics_environment_def Let_def)

lemma same_setup_audio: "same_tables (setup_audio_environment s) s"
  by (simp add: same_tables_def setup_audio_environment_def)

lemma same_setup_registry: "same_tables (setup_registry_settings s) s"
  by (simp add: same_tables_def setup_registry_settings_def log_defs)

lemma same_setup_launch: "same_tables (setup_launch s) s"
  unfolding setup_launch_def
  by (rule same_tables_trans[OF same_setup_registry] same_tables_trans[OF same_setup_audio]
      same_tables_trans[OF same_setup_graphics] same_tables_trans[OF same_setup_dll_overrides]
      same_setup_environment)+

lemma same_setup_pipes: "same_tables (snd (setup_pipes os s)) s"
  by (simp add: same_tables_def setup_pipes_def close_pipes_def log_defs Let_def
      split: option.splits)

lemma same_before_fork:
  "same_tables
     (snd (setup_pipes os (setup_launch (snd (execute_pre_launch_commands os
        (logger_info m (snd (validate_executable os rp s)))))))) s"
  by (rule same_tables_trans[OF same_setup_pipes] same_tables_trans[OF same_setup_launch]
      same_tables_trans[OF same_pre_launch])+
     (simp add: logger_info_def same_tables_trans[OF same_logger same_validate])

lemma execute_parent:
  assumes "execute os info0 path args s = Returns p s'" and "0 < p"
  shows "p = sys_fork os \<and> file_exists os (resolve_path os s path)
       \<and> (\<exists>s5. same_tables s5 s
            \<and> s' = logger_info (''Started process with PID: '' @ to_string p)
                  (add_process p
                     (info0\<lparr>pid := p, state := STARTING,
                        executable_path := resolve_path os s path, arguments := args,
                        environment := [], start_time := sys_now os, end_time := 0,
                        exit_code := 0, stdout_data := [], stderr_data := [],
                        wine_prefix := config_wine_prefix (config s),
                        architecture := config_architecture (config s)\<rparr>)
                     (s5\<lparr>current_process_pid := p, execution_active := True\<rparr>)))"
proof -
  let ?rp = "resolve_path os s path"
  let ?s5 = "snd (setup_pipes os (setup_launch (snd (execute_pre_launch_commands os
        (logger_info (''Executing: '' @ ?rp) (snd (validate_executable os ?rp s)))))))"
  have st: "same_tables ?s5 s" by (rule same_before_fork)
  then have cfg: "config ?s5 = config s" by (simp add: same_tables_def)
  from assms have "p = sys_fork os \<and> fst (validate_executable os ?rp s)
     \<and> s' = logger_info (''Started process with PID: '' @ to_string p)
                  (add_process p
                     (info0\<lparr>pid := p, state := STARTING,
                        executable_path := ?rp, arguments := args,
                        environment := [], start_time := sys_now os, end_time := 0,
                        exit_code := 0, stdout_data := [], stderr_data := [],
                        wine_prefix := config_wine_prefix (config ?s5),
                        architecture := config_architecture (config ?s5)\<rparr>)
                     (?s5\<lparr>current_process_pid := p, execution_active := True\<rparr>))"
    by (auto simp: execute_def Let_def split: if_splits)
  moreover have "fst (validate_executable os ?rp s) = file_exists os ?rp"
    by (simp add: validate_executable_def Let_def)
  ultimately show ?thesis using st cfg by auto
qed

lemma execute_returns_same:
  assumes "execute os info0 path args s = Returns p s'"
  shows "post_launch_commands s' = post_launch_commands s
       \<and> filter is_post_launch (trace s') = filter is_post_launch (trace s)"
proof -
  let ?rp = "resolve_path os s path"
  let ?s1 = "snd (validate_executable os ?rp s)"
  let ?s3 = "snd (execute_pre_launch_commands os (logger_info (''Executing: '' @ ?rp) ?s1))"
  let ?s5 = "snd (setup_pipes os (setup_launch ?s3))"
  have a: "same_tables ?s1 s" by (rule same_validate)
  have b: "same_tables ?s3 s"
    by (rule same_tables_trans[OF same_pre_launch])
       (simp add: logger_info_def same_tables_trans[OF same_logger same_validate])
  have c: "same_tables ?s5 s" by (rule same_before_fork)
  from assms a b c show ?thesis
    by (auto simp: execute_def Let_def same_tables_def close_pipes_def add_process_def log_defs
        split: if_splits)
qed

lemma post_launch_only_hooks:
  "filter is_post_launch (post_launch_events os cmds) = map PostLaunch cmds"
  by (induction cmds) (simp_all add: post_launch_events_def)

lemma monitor_pass_alive_state:
  assumes mp: "monitor_pass os s = Some s'" and mon: "is_process_monitored q s"
    and alive: "is_process_alive os q"
  shows "get_process_state os (pid (get_process_info q s)) = Some (state (get_process_info q s'))"
proof -
  from mon obtain info where i: "map_of (monitored_processes s) q = Some info"
    by (auto simp: is_process_monitored_def)
  from mon monitor_pass_keys[OF mp] have "is_process_monitored q s'"
    by (simp add: monitored_iff_key)
  then obtain info' where i': "map_of (monitored_processes s') q = Some info'"
    by (auto simp: is_process_monitored_def)
  from monitor_pass_lookup[OF mp, of q] i i' alive
  have "update_process_stats os info = Some info'" by simp
  then have "get_process_state os (pid info) = Some (state info')"
    by (auto simp: update_process_stats_def Let_def)
  with i i' show ?thesis by (simp add: get_process_info_def)
qed

lemma setup_pipes_ok:
  "fst (setup_pipes os s) \<longleftrightarrow>
     (capture_stdout (config s) \<longrightarrow> sys_pipe_stdout os \<noteq> None)
     \<and> (capture_stderr (config s) \<longrightarrow> sys_pipe_stderr os \<noteq> None)"
  by (auto simp: setup_pipes_def Let_def split: option.splits)

lemma trace_setup_environment:
  "trace (snd (setup_environment s)) = trace s @ [LogCall DEBUG ''Environment setup completed'']"
  by (subst setup_environment_shape) (simp add: log_defs)

lemma trace_setup_launch:
  "trace (setup_launch s) =
     trace s @ [LogCall DEBUG ''Environment setup completed'']
     @ (if dll_overrides (config s) \<noteq> []
        then [LogCall DEBUG (''DLL overrides set: '' @ join_overrides (dll_overrides (config s)))]
        else [])
     @ [LogCall DEBUG ''Setting up registry settings'']"
proof -
  let ?s1 = "snd (setup_environment s)"
  let ?s2 = "setup_dll_overrides ?s1"
  let ?s3 = "setup_graphics_environment ?s2"
  let ?s4 = "setup_audio_environment ?s3"
  have c1: "config ?s1 = config s"
    using same_setup_environment[of s] by (simp add: same_tables_def)
  have t2: "trace ?s2 = trace ?s1
     @ (if dll_overrides (config s) \<noteq> []
        then [LogCall DEBUG (''DLL overrides set: '' @ join_overrides (dll_overrides (config s)))]
        else [])"
    unfolding c1[symmetric] by (simp add: setup_dll_overrides_def log_defs Let_def)
  have t3: "trace ?s3 = trace ?s2"
    by (simp add: setup_graphics_environment_def Let_def)
  have t4: "trace ?s4 = trace ?s3"
    by (simp add: setup_audio_environment_def)
  have t5: "trace (setup_registry_settings ?s4)
      = trace ?s4 @ [LogCall DEBUG ''Setting up registry settings'']"
    by (simp add: setup_registry_settings_def log_defs)
  show ?thesis
    unfolding setup_launch_def t5 t4 t3 t2 trace_setup_environment by simp
qed

lemma trace_setup_pipes:
  "fst (setup_pipes os s) \<Longrightarrow> trace (snd (setup_pipes os s)) = trace s"
  by (auto simp: setup_pipes_def Let_def split: option.splits if_splits)

lemma execute_success:
  assumes f: "file_exists os (resolve_path os s path)"
    and p1: "capture_stdout (config s) \<longrightarrow> sys_pipe_stdout os \<noteq> None"
    and p2: "capture_stderr (config s) \<longrightarrow> sys_pipe_stderr os \<noteq> None"
    and k: "0 < sys_fork os"
  shows "\<exists>s'. execute os info0 path args s = Returns (sys_fork os) s'
     \<and> trace s' = trace s
          @ (if map tolower (get_extension (resolve_path os s path))
                  \<in> {''.exe'', ''.msi'', ''.bat''} then []
             else [LogCall WARNING
                     (''Unexpected file extension: ''
                      @ map tolower (get_extension (resolve_path os s path)))])
          @ launch_events os s (resolve_path os s path) (sys_fork os)
     \<and> monitored_processes s' =
          map_assign (sys_fork os)
            (info0\<lparr>pid := sys_fork os, state := STARTING,
               executable_path := resolve_path os s path, arguments := args,
               environment := [], start_time := sys_now os, end_time := 0,
               exit_code := 0, stdout_data := [], stderr_data := [],
               wine_prefix := config_wine_prefix (config s),
               architecture := config_architecture (config s)\<rparr>)
            (monitored_processes s)"
proof -
  let ?rp = "resolve_path os s path"
  let ?s1 = "snd (validate_executable os ?rp s)"
  let ?s2 = "logger_info (''Executing: '' @ ?rp) ?s1"
  let ?s3 = "snd (execute_pre_launch_commands os ?s2)"
  let ?s4 = "setup_launch ?s3"
  let ?s5 = "snd (setup_pipes os ?s4)"
  have st: "same_tables ?s5 s" by (rule same_before_fork)
  have st4: "same_tables ?s4 s"
    by (rule same_tables_trans[OF same_setup_launch] same_tables_trans[OF same_pre_launch])+
       (simp add: logger_info_def same_tables_trans[OF same_logger same_validate])
  have st3: "same_tables ?s3 s"
    by (rule same_tables_trans[OF same_pre_launch])
       (simp add: logger_info_def same_tables_trans[OF same_logger same_validate])
  have c4: "config ?s4 = config s" using st4 by (simp add: same_tables_def)
  have c3: "config ?s3 = config s" using st3 by (simp add: same_tables_def)
  have c5: "config ?s5 = config s" and m5: "monitored_processes ?s5 = monitored_processes s"
    using st by (simp_all add: same_tables_def)
  from p1 p2 c4 have p: "fst (setup_pipes os ?s4)" by (simp add: setup_pipes_ok)
  have v: "fst (validate_executable os ?rp s)"
    using f by (simp add: validate_executable_def Let_def)
  have pre: "fst (execute_pre_launch_commands os s0)" for s0
    by (simp add: execute_pre_launch_commands_def)
  have t1: "trace ?s1 = trace s
          @ (if map tolower (get_extension ?rp) \<in> {''.exe'', ''.msi'', ''.bat''} then []
             else [LogCall WARNING
                     (''Unexpected file extension: '' @ map tolower (get_extension ?rp))])"
    using f by (simp add: validate_executable_def Let_def log_defs)
  have pc: "pre_launch_commands ?s2 = pre_launch_commands s"
    by (simp add: validate_executable_def Let_def log_defs)
  have t3: "trace ?s3 = trace ?s1 @ [LogCall INFO (''Executing: '' @ ?rp)]
          @ pre_launch_events os (pre_launch_commands s)"
    unfolding pre_launch_state pc by (simp add: log_defs)
  have t5: "trace ?s5 = trace ?s3 @ [LogCall DEBUG ''Environment setup completed'']
     @ (if dll_overrides (config s) \<noteq> []
        then [LogCall DEBUG (''DLL overrides set: '' @ join_overrides (dll_overrides (config s)))]
        else [])
     @ [LogCall DEBUG ''Setting up registry settings'']"
    unfolding trace_setup_pipes[OF p] trace_setup_launch c3 by simp
  let ?info = "info0\<lparr>pid := sys_fork os, state := STARTING,
               executable_path := ?rp, arguments := args,
               environment := [], start_time := sys_now os, end_time := 0,
               exit_code := 0, stdout_data := [], stderr_data := [],
               wine_prefix := config_wine_prefix (config s),
               architecture := config_architecture (config s)\<rparr>"
  let ?s' = "logger_info (''Started process with PID: '' @ to_string (sys_fork os))
               (add_process (sys_fork os) ?info
                  (?s5\<lparr>current_process_pid := sys_fork os, execution_active := True\<rparr>))"
  have e: "execute os info0 path args s = Returns (sys_fork os) ?s'"
    using v p pre k c5 by (simp add: execute_def Let_def)
  have tr: "trace ?s' = trace ?s5
      @ [LogCall INFO (''Added process '' @ to_string (sys_fork os) @ '' to monitoring''),
         LogCall INFO (''Started process with PID: '' @ to_string (sys_fork os))]"
    by (simp add: add_process_def log_defs)
  have li: "monitored_processes (logger_info m X) = monitored_processes X" for m X
    by (simp add: log_defs)
  have ap: "monitored_processes (add_process q i X) = map_assign q i (monitored_processes X)"
    for q i X
    by (simp add: add_process_def log_defs)
  have m5': "monitored_processes
      (snd (setup_pipes os (setup_launch (snd (execute_pre_launch_commands os
         (logger_info m ?s1)))))) = monitored_processes s" for m
    using same_before_fork[of os m "?rp" s] by (simp add: same_tables_def)
  have mo: "monitored_processes ?s' = map_assign (sys_fork os) ?info (monitored_processes s)"
    by (simp add: li ap m5')
  show ?thesis
    apply (rule exI[of _ ?s'])
    unfolding tr t5 t3 t1 mo launch_events_def using e by simp
qed

section \<open>Properties of the environment\<close>

lemma getenv_env_put: "getenv k (env_put n v e) = (if k = n then Some v else getenv k e)"
  by (induction e) (auto simp: getenv_def)

lemma getenv_setenv:
  "getenv k (setenv n v ow e) =
     (if valid_name n \<and> (ow \<or> getenv n e = None) \<and> k = n then Some v else getenv k e)"
  by (auto simp: setenv_def valid_name_def getenv_env_put)

lemma getenv_fold_setenv:
  "valid_name k \<Longrightarrow> distinct (map fst xs) \<Longrightarrow>
   getenv k (fold (\<lambda>pair. setenv (fst pair) (snd pair) True) xs e) =
     (case map_of xs k of Some v \<Rightarrow> Some v | None \<Rightarrow> getenv k e)"
proof (induction xs arbitrary: e)
  case Nil
  then show ?case by simp
next
  case (Cons x xs)
  obtain n v where x: "x = (n, v)" by (cases x)
  from Cons.prems have d: "distinct (map fst xs)" and n: "n \<notin> fst ` set xs"
    by (simp_all add: x)
  from n have none: "map_of xs n = None" by (simp add: map_of_eq_None_iff)
  show ?case
    using Cons.IH[OF Cons.prems(1) d, of "setenv n v True e"] Cons.prems(1) none
    by (auto simp: x getenv_setenv split: option.splits)
qed

lemma valid_literals [simp]:
  "valid_name ''WINEPREFIX''" "valid_name ''WINEARCH''" "valid_name ''WINE_VD_RESOLUTION''"
  "valid_name ''CSMT''" "valid_name ''WINEESYNC''" "valid_name ''WINEFSYNC''"
  "valid_name ''WINEDLLOVERRIDES''" "valid_name ''DISPLAY''" "valid_name ''WAYLAND_DISPLAY''"
  "valid_name ''DXVK_HUD''" "valid_name ''WINE_AUDIO_DRIVER''"
  by (simp_all add: valid_name_def)

lemma getenv_setup_dll_overrides:
  "getenv k (environ (setup_dll_overrides s)) =
     (if k = ''WINEDLLOVERRIDES'' \<and> dll_overrides (config s) \<noteq> []
      then Some (join_overrides (dll_overrides (config s)))
      else getenv k (environ s))"
  by (simp add: setup_dll_overrides_def Let_def log_defs getenv_setenv)

lemma getenv_setup_graphics:
  "getenv k (environ (setup_graphics_environment s)) =
     (case getenv k (environ s) of
        Some v \<Rightarrow> Some v
      | None \<Rightarrow> default_value (config s) k)"
  by (auto simp: setup_graphics_environment_def Let_def getenv_setenv default_value_def
      split: option.splits)

lemma getenv_setup_audio:
  "getenv k (environ (setup_audio_environment s)) =
     (if k = ''WINE_AUDIO_DRIVER'' \<and> audio_driver (config s) \<in> {''alsa'', ''pulse'', ''oss''}
      then Some (audio_driver (config s))
      else getenv k (environ s))"
  by (auto simp: setup_audio_environment_def getenv_setenv)

lemma getenv_setup_environment:
  assumes k: "valid_name k" and dc: "distinct (map fst (custom_environment s))"
    and dv: "distinct (map fst (environment_variables (config s)))"
  shows "getenv k (environ (snd (setup_environment s))) =
     (case user_value s k of
        Some v \<Rightarrow> Some v
      | None \<Rightarrow>
          (case early_feature_value (config s) k of
             Some v \<Rightarrow> Some v
           | None \<Rightarrow> getenv k (environ s)))"
proof -
  define cfg where "cfg = config s"
  define e1 where "e1 = setenv ''WINEPREFIX'' (config_wine_prefix cfg) True (environ s)"
  define e2 where "e2 =
    (if config_architecture cfg = WIN32 then setenv ''WINEARCH'' ''win32'' True e1
     else if config_architecture cfg = WIN64 then setenv ''WINEARCH'' ''win64'' True e1
     else e1)"
  define e3 where "e3 =
    (if enable_virtual_desktop cfg \<and> virtual_desktop_resolution cfg \<noteq> []
     then setenv ''WINE_VD_RESOLUTION'' (virtual_desktop_resolution cfg) True e2 else e2)"
  define e4 where "e4 = (if enable_csmt cfg then setenv ''CSMT'' ''enabled'' True e3 else e3)"
  define e5 where "e5 = (if enable_esync cfg then setenv ''WINEESYNC'' ''1'' True e4 else e4)"
  define e6 where "e6 = (if enable_fsync cfg then setenv ''WINEFSYNC'' ''1'' True e5 else e5)"
  define e7 where "e7 =
    (if audio_driver cfg \<noteq> [] then setenv ''WINEDLLOVERRIDES'' ''winemapi.dll=n,b'' True e6
     else e6)"
  define e8 where "e8 = fold (\<lambda>pair. setenv (fst pair) (snd pair) True) (custom_environment s) e7"
  define e9 where "e9 = fold (\<lambda>pair. setenv (fst pair) (snd pair) True) (environment_variables cfg) e8"
  have env: "environ (snd (setup_environment s)) = e9"
    unfolding setup_environment_def Let_def e9_def e8_def e7_def e6_def e5_def e4_def e3_def
      e2_def e1_def cfg_def
    by (simp add: log_defs)
  have g1: "getenv k e1 =
      (if k = ''WINEPREFIX'' then Some (config_wine_prefix cfg) else getenv k (environ s))"
    by (simp add: e1_def getenv_setenv)
  have g2: "getenv k e2 =
      (if k = ''WINEARCH'' \<and> config_architecture cfg = WIN32 then Some ''win32''
       else if k = ''WINEARCH'' \<and> config_architecture cfg = WIN64 then Some ''win64''
       else getenv k e1)"
    by (simp add: e2_def getenv_setenv)
  have g3: "getenv k e3 =
      (if k = ''WINE_VD_RESOLUTION'' \<and> enable_virtual_desktop cfg
            \<and> virtual_desktop_resolution cfg \<noteq> []
       then Some (virtual_desktop_resolution cfg) else getenv k e2)"
    by (simp add: e3_def getenv_setenv)
  have g4: "getenv k e4 =
      (if k = ''CSMT'' \<and> enable_csmt cfg then Some ''enabled'' else getenv k e3)"
    by (simp add: e4_def getenv_setenv)
  have g5: "getenv k e5 =
      (if k = ''WINEESYNC'' \<and> enable_esync cfg then Some ''1'' else getenv k e4)"
    by (simp add: e5_def getenv_setenv)
  have g6: "getenv k e6 =
      (if k = ''WINEFSYNC'' \<and> enable_fsync cfg then Some ''1'' else getenv k e5)"
    by (simp add: e6_def getenv_setenv)
  have g7: "getenv k e7 =
      (if k = ''WINEDLLOVERRIDES'' \<and> audio_driver cfg \<noteq> [] then Some ''winemapi.dll=n,b''
       else getenv k e6)"
    by (simp add: e7_def getenv_setenv)
  have early: "getenv k e7 =
      (case early_feature_value cfg k of Some v \<Rightarrow> Some v | None \<Rightarrow> getenv k (environ s))"
    unfolding g7 g6 g5 g4 g3 g2 g1 early_feature_value_def by simp
  have g8: "getenv k e8 =
      (case map_of (custom_environment s) k of Some v \<Rightarrow> Some v | None \<Rightarrow> getenv k e7)"
    unfolding e8_def by (rule getenv_fold_setenv[OF k dc])
  have g9: "getenv k e9 =
      (case map_of (environment_variables cfg) k of Some v \<Rightarrow> Some v | None \<Rightarrow> getenv k e8)"
    unfolding e9_def using dv by (intro getenv_fold_setenv[OF k]) (simp add: cfg_def)
  show ?thesis
    unfolding env g9 g8 early user_value_def cfg_def by (simp split: option.splits)
qed

lemma getenv_setup_launch:
  assumes k: "valid_name k" and dc: "distinct (map fst (custom_environment s))"
    and dv: "distinct (map fst (environment_variables (config s)))"
  shows "getenv k (environ (setup_launch s)) = assembled_value s k"
proof -
  let ?s1 = "snd (setup_environment s)"
  let ?s2 = "setup_dll_overrides ?s1"
  let ?s3 = "setup_graphics_environment ?s2"
  let ?s4 = "setup_audio_environment ?s3"
  have c1: "config ?s1 = config s"
    using same_setup_environment[of s] by (simp add: same_tables_def)
  have c2: "config ?s2 = config s"
    using same_setup_dll_overrides[of ?s1] c1 by (simp add: same_tables_def)
  have c3: "config ?s3 = config s"
    using same_setup_graphics[of ?s2] c2 by (simp add: same_tables_def)
  have r: "environ (setup_registry_settings ?s4) = environ ?s4"
    by (simp add: setup_registry_settings_def log_defs)
  have "getenv k (environ (setup_launch s)) =
      (if k = ''WINE_AUDIO_DRIVER'' \<and> audio_driver (config s) \<in> {''alsa'', ''pulse'', ''oss''}
       then Some (audio_driver (config s))
       else case (if k = ''WINEDLLOVERRIDES'' \<and> dll_overrides (config s) \<noteq> []
                  then Some (join_overrides (dll_overrides (config s)))
                  else getenv k (environ ?s1)) of
              Some v \<Rightarrow> Some v
            | None \<Rightarrow> default_value (config s) k)"
    unfolding setup_launch_def r
    by (simp only: getenv_setup_audio getenv_setup_graphics getenv_setup_dll_overrides c1 c2 c3)
  also have "\<dots> = assembled_value s k"
    unfolding getenv_setup_environment[OF k dc dv] assembled_value_def late_feature_value_def
    by (auto split: option.splits)
  finally show ?thesis .
qed

lemma environ_before_setup:
  "environ (snd (execute_pre_launch_commands os
        (logger_info m (snd (validate_executable os rp s))))) = environ s"
  "custom_environment (snd (execute_pre_launch_commands os
        (logger_info m (snd (validate_executable os rp s))))) = custom_environment s"
  "config (snd (execute_pre_launch_commands os
        (logger_info m (snd (validate_executable os rp s))))) = config s"
  by (simp_all add: pre_launch_state validate_executable_def log_defs Let_def)

lemma environ_setup_pipes: "environ (snd (setup_pipes os s)) = environ s"
  by (simp add: setup_pipes_def close_pipes_def log_defs Let_def split: option.splits)

lemma assembled_value_cong:
  "config s' = config s \<Longrightarrow> custom_environment s' = custom_environment s \<Longrightarrow>
   environ s' = environ s \<Longrightarrow> assembled_value s' k = assembled_value s k"
  by (simp add: assembled_value_def user_value_def cong: option.case_cong)

lemma execute_child:
  assumes "execute os info0 path args s = ChildExec command env"
  shows "env = environ (setup_launch (snd (execute_pre_launch_commands os
        (logger_info (''Executing: '' @ resolve_path os s path)
           (snd (validate_executable os (resolve_path os s path) s))))))"
  using assms
  by (simp add: execute_def Let_def build_environment_array_def environ_setup_pipes
      split: if_splits)

section \<open>Claims about the process table and the signal operations\<close>

text \<open>
  Claim C9. For an identifier that is not in the table, \<open>get_process_info\<close> returns the
  value-initialised \<open>ProcessInfo\<close>, with pid 0 and state \<open>IDLE\<close>, and no error; a
  tracked identifier whose record holds that value gives the same answer, so the answer
  alone does not tell tracked from untracked.
\<close>

theorem get_process_info_untracked:
  assumes "\<not> is_process_monitored p s"
  shows "get_process_info p s = ProcessInfo_value_init
       \<and> pid (get_process_info p s) = 0 \<and> state (get_process_info p s) = IDLE
       \<and> is_process_monitored q (add_process q ProcessInfo_value_init s)
       \<and> get_process_info q (add_process q ProcessInfo_value_init s) = get_process_info p s"
proof -
  from assms have "get_process_info p s = ProcessInfo_value_init"
    by (simp add: is_process_monitored_def get_process_info_def)
  then show ?thesis
    by (simp add: map_of_map_assign is_process_monitored_def get_process_info_def
        add_process_def log_defs ProcessInfo_value_init_def)
qed

theorem get_process_info_untracked_witness:
  "\<not> is_process_monitored 7 example_state
   \<and> get_process_info 7 example_state = ProcessInfo_value_init
   \<and> get_process_info 9 (add_process 9 ProcessInfo_value_init example_state)
       = get_process_info 7 example_state"
proof -
  have h: "\<not> is_process_monitored 7 example_state"
    by (simp add: is_process_monitored_def example_state_def)
  from get_process_info_untracked[OF h, of 9] h show ?thesis by simp
qed

text \<open>
  Claim C1, as stated, fails: process 4242 is not in the table and the operating system
  accepts the signals; \<open>pause_process\<close>, \<open>resume_process\<close>, \<open>kill_process\<close> and
  \<open>terminate_process\<close> send the signal, log success and return. Nothing reports an
  unknown identifier.
\<close>

theorem signal_unknown_pid_counterexample:
  "\<not> is_process_monitored 4242 example_state
   \<and> sys_kill example_os 4242 SIGSTOP = 0
   \<and> pause_process example_os 4242 example_state
       = example_state\<lparr>trace := [SysKill 4242 19, LogCall INFO ''Paused process 4242'']\<rparr>
   \<and> resume_process example_os 4242 example_state
       = example_state\<lparr>trace := [SysKill 4242 18, LogCall INFO ''Resumed process 4242'']\<rparr>
   \<and> kill_process example_os 4242 SIGKILL example_state
       = Returns ()
           (example_state
              \<lparr>trace := [SysKill 4242 9, LogCall INFO ''Sent signal 9 to process 4242'']\<rparr>)
   \<and> terminate_process example_os 4242 example_state
       = Returns ()
           (example_state
              \<lparr>trace := [LogCall INFO ''Terminating process: 4242'', SysKill 4242 15,
                 LogCall INFO ''Sent signal 15 to process 4242'']\<rparr>)"
  by (simp add: is_process_monitored_def pause_process_def resume_process_def kill_process_def
      terminate_process_def ex_defs num_defs log_defs Let_def)

text \<open>
  Claim C1, amended. No signal operation looks the identifier up. For every identifier, in
  the table or not, the operation sends the signal and leaves everything but the events as
  it is. \<open>pause_process\<close> and \<open>resume_process\<close> then make one log call, \<open>INFO\<close> when
  \<open>kill\<close> returns 0 and \<open>ERROR_LOG\<close> otherwise. \<open>kill_process\<close> and
  \<open>terminate_process\<close> do the same when \<open>kill\<close> returns; when the signal ends the
  calling program (identifier 0, its own pid or its group, with a signal that terminates)
  the program ends inside \<open>kill\<close> and no log call follows the signal.
\<close>

theorem signal_operations_skip_table:
  "pause_process os p s =
     s\<lparr>trace := trace s @ [SysKill p SIGSTOP,
         if sys_kill os p SIGSTOP = 0 then LogCall INFO (''Paused process '' @ to_string p)
         else LogCall ERROR_LOG (''Failed to pause process '' @ to_string p)]\<rparr>
   \<and> resume_process os p s =
     s\<lparr>trace := trace s @ [SysKill p SIGCONT,
         if sys_kill os p SIGCONT = 0 then LogCall INFO (''Resumed process '' @ to_string p)
         else LogCall ERROR_LOG (''Failed to resume process '' @ to_string p)]\<rparr>
   \<and> kill_process os p sig s =
     (if sys_kill_ends_caller os p sig
      then Ended (s\<lparr>trace := trace s @ [SysKill p sig]\<rparr>)
      else Returns ()
        (s\<lparr>trace := trace s @ [SysKill p sig,
            if sys_kill os p sig = 0
            then LogCall INFO
                   (''Sent signal '' @ to_string sig @ '' to process '' @ to_string p)
            else LogCall ERROR_LOG (''Failed to send signal to process '' @ to_string p)]\<rparr>))
   \<and> terminate_process os p s =
     (if sys_kill_ends_caller os p SIGTERM
      then Ended
        (s\<lparr>trace := trace s @ [LogCall INFO (''Terminating process: '' @ to_string p),
            SysKill p SIGTERM]\<rparr>)
      else Returns ()
        (s\<lparr>trace := trace s @ [LogCall INFO (''Terminating process: '' @ to_string p),
            SysKill p SIGTERM,
            if sys_kill os p SIGTERM = 0
            then LogCall INFO
                   (''Sent signal '' @ to_string SIGTERM @ '' to process '' @ to_string p)
            else LogCall ERROR_LOG (''Failed to send signal to process '' @ to_string p)]\<rparr>))"
  by (simp add: pause_process_def resume_process_def kill_process_def terminate_process_def
      log_defs Let_def)

theorem signal_operations_skip_table_witness:
  "\<not> is_process_monitored 77 example_state
   \<and> pause_process example_os 77 example_state
       = example_state\<lparr>trace := [SysKill 77 19, LogCall ERROR_LOG ''Failed to pause process 77'']\<rparr>
   \<and> \<not> sys_kill_ends_caller example_os 4242 9
   \<and> map_option monitored_processes
        (returned_state (kill_process example_os 4242 9 (tracked_state example_info)))
       = Some [(4242, example_info)]
   \<and> \<not> sys_kill_ends_caller example_os 77 15
   \<and> terminate_process example_os 77 example_state
       = Returns ()
           (example_state
              \<lparr>trace := [LogCall INFO ''Terminating process: 77'', SysKill 77 15,
                 LogCall ERROR_LOG ''Failed to send signal to process 77'']\<rparr>)
   \<and> sys_kill_ends_caller example_os 0 15
   \<and> \<not> is_process_monitored 0 example_state
   \<and> terminate_process example_os 0 example_state
       = Ended
           (example_state
              \<lparr>trace := [LogCall INFO ''Terminating process: 0'', SysKill 0 15]\<rparr>)
   \<and> kill_process example_os 0 9 example_state
       = Ended (example_state\<lparr>trace := [SysKill 0 9]\<rparr>)"
  using signal_operations_skip_table[of example_os 77 example_state]
    signal_operations_skip_table[of example_os 4242 "tracked_state example_info" 9]
    signal_operations_skip_table[of example_os 0 example_state 9]
  by (simp add: is_process_monitored_def ex_defs num_defs)

text \<open>
  Claim C2, as stated, fails: the operating system accepts \<open>SIGSTOP\<close> for the tracked
  process 4242, whose record says \<open>RUNNING\<close>, and a query after \<open>pause_process\<close> still
  says \<open>RUNNING\<close>; likewise a \<open>PAUSED\<close> record stays \<open>PAUSED\<close> after
  \<open>resume_process\<close>.
\<close>

theorem pause_state_counterexample:
  "sys_kill example_os 4242 SIGSTOP = 0
   \<and> state (get_process_info 4242 (tracked_state example_info)) = RUNNING
   \<and> state (get_process_info 4242 (pause_process example_os 4242 (tracked_state example_info)))
       = RUNNING
   \<and> sys_kill example_os 4242 SIGCONT = 0
   \<and> state (get_process_info 4242 (tracked_state (example_info\<lparr>state := PAUSED\<rparr>))) = PAUSED
   \<and> state (get_process_info 4242
        (resume_process example_os 4242 (tracked_state (example_info\<lparr>state := PAUSED\<rparr>))))
       = PAUSED"
  by (simp add: get_process_info_def ex_defs)

text \<open>
  Claim C2, amended. \<open>pause_process\<close> and \<open>resume_process\<close> leave every record as it
  is, so a query after the call returns what it returned before the call. The state
  changes at the next pass of the monitor: for a tracked identifier that passes the
  liveness probe, the state after the pass is the one \<open>get_process_state\<close> reads from
  the stat file of the record's pid, and on a line of the form \<open>pid (comm) X ...\<close> that
  is \<open>PAUSED\<close> for the letter \<open>T\<close>, \<open>STOPPED\<close> for \<open>Z\<close> and \<open>RUNNING\<close> for
  every other letter.
\<close>

theorem pause_resume_leave_record:
  "get_process_info q (pause_process os p s) = get_process_info q s
   \<and> get_process_info q (resume_process os p s) = get_process_info q s
   \<and> (monitor_pass os' s = Some s' \<and> is_process_monitored q s \<and> is_process_alive os' q
        \<longrightarrow> get_process_state os' (pid (get_process_info q s))
              = Some (state (get_process_info q s')))
   \<and> (proc_stat os' r = Some (pre @ CHR '')'' # sp # c # rest)
        \<and> CHR ''('' \<in> set pre \<and> CHR '')'' \<notin> set (sp # c # rest)
        \<longrightarrow> get_process_state os' r =
              Some (if c = CHR ''T'' then PAUSED else if c = CHR ''Z'' then STOPPED
                    else RUNNING))"
  using monitor_pass_alive_state[of os' s s' q] get_process_state_line[of os' r pre sp c rest]
  by (simp add: get_process_info_def)

theorem pause_resume_leave_record_witness:
  "monitor_pass example_os (pause_process example_os 4242 (tracked_state example_info)) \<noteq> None
   \<and> is_process_monitored 4242 (tracked_state example_info)
   \<and> is_process_alive example_os 4242
   \<and> proc_stat example_os 4242 = Some (''4242 (wine'' @ CHR '')'' # CHR '' '' # CHR ''T'' # '' 1 4242'')
   \<and> state (get_process_info 4242 (pause_process example_os 4242 (tracked_state example_info)))
       = RUNNING
   \<and> map_option (\<lambda>s'. state (get_process_info 4242 s'))
        (monitor_pass example_os (pause_process example_os 4242 (tracked_state example_info)))
       = Some PAUSED"
proof -
  let ?s = "pause_process example_os 4242 (tracked_state example_info)"
  have line: "proc_stat example_os 4242
      = Some (''4242 (wine'' @ CHR '')'' # CHR '' '' # CHR ''T'' # '' 1 4242'')"
    by (simp add: example_os_def)
  have alive: "is_process_alive example_os 4242"
    by (simp add: is_process_alive_def example_os_def)
  have mon: "is_process_monitored 4242 ?s"
    by (simp add: is_process_monitored_def tracked_state_def example_state_def)
  have info: "get_process_info 4242 ?s = example_info"
    by (simp add: get_process_info_def tracked_state_def example_state_def)
  have "monitor_pass example_os ?s \<noteq> None"
    by (rule monitor_pass_total)
       (simp add: tracked_state_def example_state_def get_process_state_def example_os_def
          example_info_def ProcessInfo_value_init_def)
  then obtain s' where mp: "monitor_pass example_os ?s = Some s'" by auto
  note t = pause_resume_leave_record[where q = 4242 and os = example_os and p = 4242
      and s = "?s" and os' = example_os and s' = s' and r = 4242 and pre = "''4242 (wine''"
      and sp = "CHR '' ''" and c = "CHR ''T''" and rest = "'' 1 4242''"]
  from t line have st: "get_process_state example_os 4242 = Some PAUSED" by simp
  from t mp mon alive info st have "state (get_process_info 4242 s') = PAUSED"
    by (simp add: example_info_def ProcessInfo_value_init_def)
  with mp mon alive line info show ?thesis
    by (simp add: is_process_monitored_def example_info_def ProcessInfo_value_init_def)
qed

text \<open>
  Claim C3, as stated, fails: a record in state \<open>STOPPED\<close> with \<open>end_time\<close> 1000,
  whose process is gone, has its \<open>end_time\<close> written again in each of two passes (2000,
  then 3000), and the one registered callback is called in each pass.
\<close>

theorem terminal_record_counterexample:
  "state (get_process_info 4242 (tracked_state (example_info\<lparr>state := STOPPED, end_time := 1000\<rparr>)))
     = STOPPED
   \<and> monitor_loop [dead_os 2000, dead_os 3000]
        (tracked_state (example_info\<lparr>state := STOPPED, end_time := 1000\<rparr>))
     = Some ((tracked_state (example_info\<lparr>state := STOPPED, end_time := 3000\<rparr>))
         \<lparr>trace :=
            [Notify 0 (example_info\<lparr>state := STOPPED, end_time := 2000\<rparr>),
             LogCall INFO ''Process 4242 has terminated'',
             Notify 0 (example_info\<lparr>state := STOPPED, end_time := 3000\<rparr>),
             LogCall INFO ''Process 4242 has terminated'']\<rparr>)"
  by (simp add: get_process_info_def monitor_pass_def is_process_alive_def notify_state_change_def Let_def
      ex_defs num_defs log_defs)

text \<open>
  Claim C3, amended. A pass of the monitor visits every record, whatever its state. For
  each record whose identifier fails the liveness probe (\<open>kill(pid, 0)\<close> is not 0) the
  pass sets the state to \<open>STOPPED\<close>, writes the time of the pass to \<open>end_time\<close> and
  calls every registered callback once, then logs the termination; this is repeated in
  every pass in which the probe fails. A record whose identifier passes the probe gets
  \<open>cpu_usage\<close>, \<open>memory_usage\<close> and \<open>state\<close> from \<open>update_process_stats\<close>. That
  is the case of a child that has terminated and has not been waited for (the launch
  without wait never calls \<open>waitpid\<close>): it passes the probe, its run-state \<open>Z\<close> gives
  \<open>STOPPED\<close>, its \<open>end_time\<close> is left as it is and no callback is called for it; a
  pass in which every identifier passes the probe adds no event at all.
\<close>

theorem monitor_pass_every_record:
  assumes "monitor_pass os s = Some s'"
  shows "trace s' = trace s
           @ pass_notifications os (state_change_callbacks s) (monitored_processes s)
           @ map (\<lambda>p. LogCall INFO (''Process '' @ to_string p @ '' has terminated''))
               (map fst (dead_entries os (monitored_processes s)))
       \<and> length (pass_notifications os (state_change_callbacks s) (monitored_processes s))
           = length (state_change_callbacks s) * length (dead_entries os (monitored_processes s))
       \<and> map_of (monitored_processes s') p =
           (case map_of (monitored_processes s) p of
              None \<Rightarrow> None
            | Some info \<Rightarrow>
                if is_process_alive os p then update_process_stats os info
                else Some (info\<lparr>state := STOPPED, end_time := sys_now os\<rparr>))
       \<and> (map_of (monitored_processes s) p = Some info \<and> is_process_alive os p
            \<and> proc_stat os (pid info) = Some (pre @ CHR '')'' # sp # CHR ''Z'' # rest)
            \<and> CHR ''('' \<in> set pre \<and> CHR '')'' \<notin> set (sp # CHR ''Z'' # rest)
          \<longrightarrow> map_of (monitored_processes s') p =
                Some (info\<lparr>cpu_usage := 0, memory_usage := get_memory_usage os (pid info),
                          state := STOPPED\<rparr>))
       \<and> ((\<forall>e \<in> set (monitored_processes s). is_process_alive os (fst e))
          \<longrightarrow> trace s' = trace s)"
proof -
  have len: "length (concat (map (\<lambda>e. map (f e) cbs) es)) = length cbs * length es"
    for f :: "int \<times> ProcessInfo \<Rightarrow> nat \<Rightarrow> event" and cbs es
    by (induction es) simp_all
  note tr = monitor_pass_trace[OF assms] and lk = monitor_pass_lookup[OF assms, of p]
  have zombie: "map_of (monitored_processes s') p =
                Some (info\<lparr>cpu_usage := 0, memory_usage := get_memory_usage os (pid info),
                          state := STOPPED\<rparr>)"
    if "map_of (monitored_processes s) p = Some info" "is_process_alive os p"
      "proc_stat os (pid info) = Some (pre @ CHR '')'' # sp # CHR ''Z'' # rest)"
      "CHR ''('' \<in> set pre" "CHR '')'' \<notin> set (sp # CHR ''Z'' # rest)"
  proof -
    from get_process_state_line[OF that(3,4,5)]
    have "get_process_state os (pid info) = Some STOPPED" by simp
    then have "update_process_stats os info =
        Some (info\<lparr>cpu_usage := 0, memory_usage := get_memory_usage os (pid info),
                          state := STOPPED\<rparr>)"
      using that(3) by (simp add: update_process_stats_def calculate_cpu_usage_def Let_def)
    with lk that(1,2) show ?thesis by simp
  qed
  have quiet: "trace s' = trace s"
    if "\<forall>e \<in> set (monitored_processes s). is_process_alive os (fst e)"
  proof -
    from that have "dead_entries os (monitored_processes s) = []"
      by (simp add: dead_entries_def)
    with tr show ?thesis by (simp add: pass_notifications_def)
  qed
  have a: "length (pass_notifications os (state_change_callbacks s) (monitored_processes s))
           = length (state_change_callbacks s) * length (dead_entries os (monitored_processes s))"
    by (simp add: pass_notifications_def len)
  from tr a lk zombie quiet show ?thesis by blast
qed

theorem monitor_pass_every_record_witness:
  "monitor_pass (dead_os 2000) (tracked_state (example_info\<lparr>state := STOPPED, end_time := 1000\<rparr>))
     = Some ((tracked_state (example_info\<lparr>state := STOPPED, end_time := 2000\<rparr>))
         \<lparr>trace :=
            [Notify 0 (example_info\<lparr>state := STOPPED, end_time := 2000\<rparr>),
             LogCall INFO ''Process 4242 has terminated'']\<rparr>)
   \<and> pass_notifications (dead_os 2000) [0]
        [(4242, example_info\<lparr>state := STOPPED, end_time := 1000\<rparr>)]
     = [Notify 0 (example_info\<lparr>state := STOPPED, end_time := 2000\<rparr>)]
   \<and> is_process_alive zombie_os 4242
   \<and> proc_stat zombie_os (pid example_info)
       = Some (''4242 (wine'' @ CHR '')'' # CHR '' '' # CHR ''Z'' # '' 1 4242'')
   \<and> monitor_pass zombie_os (tracked_state example_info)
       = Some (tracked_state (example_info\<lparr>state := STOPPED\<rparr>))
   \<and> monitor_loop [zombie_os, zombie_os, zombie_os] (tracked_state example_info)
       = Some (tracked_state (example_info\<lparr>state := STOPPED\<rparr>))
   \<and> end_time (example_info\<lparr>state := STOPPED\<rparr>) = 0
   \<and> trace (tracked_state (example_info\<lparr>state := STOPPED\<rparr>)) = []"
proof -
  let ?s = "tracked_state (example_info\<lparr>state := STOPPED, end_time := 1000\<rparr>)"
  let ?s' = "(tracked_state (example_info\<lparr>state := STOPPED, end_time := 2000\<rparr>))
         \<lparr>trace :=
            [Notify 0 (example_info\<lparr>state := STOPPED, end_time := 2000\<rparr>),
             LogCall INFO ''Process 4242 has terminated'']\<rparr>"
  have dp: "monitor_pass (dead_os 2000) ?s = Some ?s'"
    by (simp add: monitor_pass_def is_process_alive_def notify_state_change_def Let_def
      ex_defs num_defs log_defs)
  have alive: "is_process_alive zombie_os 4242"
    by (simp add: is_process_alive_def zombie_os_def example_os_def)
  have line: "proc_stat zombie_os (pid example_info)
       = Some (''4242 (wine'' @ CHR '')'' # CHR '' '' # CHR ''Z'' # '' 1 4242'')"
    by (simp add: zombie_os_def example_info_def ProcessInfo_value_init_def)
  have all: "\<forall>e \<in> set (monitored_processes (tracked_state example_info)).
      is_process_alive zombie_os (fst e)"
    using alive by (simp add: tracked_state_def example_state_def)
  have st: "get_process_state zombie_os 4242 = Some STOPPED"
    by (simp add: get_process_state_def zombie_os_def)
  have zp: "monitor_pass zombie_os (tracked_state i) = Some (tracked_state (i\<lparr>state := STOPPED\<rparr>))"
    if "pid i = 4242" "cpu_usage i = 0" "memory_usage i = 0" for i
    using alive st that
    by (simp add: monitor_pass_def update_process_stats_def calculate_cpu_usage_def
        get_memory_usage_def zombie_os_def tracked_state_def example_state_def Let_def)
  have i: "pid example_info = 4242" "cpu_usage example_info = 0" "memory_usage example_info = 0"
    by (simp_all add: example_info_def ProcessInfo_value_init_def)
  have zp1: "monitor_pass zombie_os (tracked_state example_info)
       = Some (tracked_state (example_info\<lparr>state := STOPPED\<rparr>))"
    using zp[of example_info] i by simp
  have zp2: "monitor_pass zombie_os (tracked_state (example_info\<lparr>state := STOPPED\<rparr>))
       = Some (tracked_state (example_info\<lparr>state := STOPPED\<rparr>))"
    using zp[of "example_info\<lparr>state := STOPPED\<rparr>"] i by simp
  have lookup: "map_of (monitored_processes (tracked_state example_info)) 4242 = Some example_info"
    by (simp add: tracked_state_def example_state_def)
  note z = monitor_pass_every_record[OF zp1, where p = 4242 and info = example_info
      and pre = "''4242 (wine''" and sp = "CHR '' ''" and rest = "'' 1 4242''"]
  from z have "(\<forall>e \<in> set (monitored_processes (tracked_state example_info)).
      is_process_alive zombie_os (fst e))
    \<longrightarrow> trace (tracked_state (example_info\<lparr>state := STOPPED\<rparr>))
        = trace (tracked_state example_info)"
    by blast
  with all
  have "trace (tracked_state (example_info\<lparr>state := STOPPED\<rparr>)) = trace (tracked_state example_info)"
    by (rule mp[rotated])
  then have tr: "trace (tracked_state (example_info\<lparr>state := STOPPED\<rparr>)) = []"
    by (simp add: tracked_state_def example_state_def)
  from monitor_pass_every_record[OF dp, of 4242] dp alive line zp1 zp2 tr show ?thesis
    by (simp add: pass_notifications_def dead_entries_def is_process_alive_def ex_defs)
qed

text \<open>
  Claim C8. The passes of \<open>monitor_loop\<close> keep the keys of the table: an identifier is
  tracked after the passes exactly when it was before, \<open>get_all_processes\<close> keeps its
  length and holds the record of every tracked identifier, and the identifier leaves the
  table when \<open>remove_process\<close> is called for it.
\<close>

theorem monitor_loop_never_removes:
  assumes "monitor_loop oss s = Some s'"
  shows "map fst (monitored_processes s') = map fst (monitored_processes s)
       \<and> is_process_monitored p s' = is_process_monitored p s
       \<and> length (get_all_processes s') = length (get_all_processes s)
       \<and> (is_process_monitored p s \<longrightarrow> get_process_info p s' \<in> set (get_all_processes s'))
       \<and> \<not> is_process_monitored p (remove_process p s')"
proof -
  note k = monitor_loop_keys[OF assms]
  have m: "is_process_monitored p s' = is_process_monitored p s"
    using k by (simp add: monitored_iff_key)
  have l: "length (get_all_processes s') = length (get_all_processes s)"
    using arg_cong[OF k, of length] by (simp add: get_all_processes_def)
  have g: "get_process_info p s' \<in> set (get_all_processes s')" if "is_process_monitored p s"
  proof -
    from that m obtain info where i: "map_of (monitored_processes s') p = Some info"
      by (auto simp: is_process_monitored_def)
    from map_of_SomeD[OF i] have "info \<in> snd ` set (monitored_processes s')" by force
    with i show ?thesis by (simp add: get_process_info_def get_all_processes_def)
  qed
  have r: "\<not> is_process_monitored p (remove_process p s')"
    by (auto simp: monitored_iff_key remove_process_def map_erase_def log_defs)
  from k m l g r show ?thesis by blast
qed

theorem monitor_loop_never_removes_witness:
  "monitor_loop [dead_os 2000, dead_os 3000] (tracked_state example_info) \<noteq> None
   \<and> map_option (\<lambda>s'. map pid (get_all_processes s'))
        (monitor_loop [dead_os 2000, dead_os 3000] (tracked_state example_info)) = Some [4242]
   \<and> map_option (\<lambda>s'. is_process_monitored 4242 s')
        (monitor_loop [dead_os 2000, dead_os 3000] (tracked_state example_info)) = Some True
   \<and> map_option (\<lambda>s'. is_process_monitored 4242 (remove_process 4242 s'))
        (monitor_loop [dead_os 2000, dead_os 3000] (tracked_state example_info)) = Some False"
proof -
  let ?s' = "(tracked_state (example_info\<lparr>state := STOPPED, end_time := 3000\<rparr>))
         \<lparr>trace :=
            [Notify 0 (example_info\<lparr>state := STOPPED, end_time := 2000\<rparr>),
             LogCall INFO ''Process 4242 has terminated'',
             Notify 0 (example_info\<lparr>state := STOPPED, end_time := 3000\<rparr>),
             LogCall INFO ''Process 4242 has terminated'']\<rparr>"
  have ml: "monitor_loop [dead_os 2000, dead_os 3000] (tracked_state example_info) = Some ?s'"
    by (simp add: monitor_pass_def is_process_alive_def notify_state_change_def Let_def
      ex_defs num_defs log_defs)
  have mon: "is_process_monitored 4242 (tracked_state example_info)"
    by (simp add: is_process_monitored_def tracked_state_def example_state_def)
  have pids: "map pid (get_all_processes ?s') = [4242]"
    by (simp add: get_all_processes_def ex_defs)
  from monitor_loop_never_removes[OF ml, of 4242] mon ml pids show ?thesis
    by simp
qed

section \<open>Claims about the launch\<close>

text \<open>
  Claim C10. Validation succeeds for every existing regular file: an extension other
  than \<open>.exe\<close>, \<open>.msi\<close> and \<open>.bat\<close> adds one warning to the log and nothing
  else. The launch of such a file goes on: when the pipes can be made and \<open>fork\<close>
  gives a child, \<open>execute\<close> returns the child's identifier, the events it leaves are the
  warning (for such an extension only) followed by the events of the launch, and the table
  it leaves holds the record of the child under the resolved path.
\<close>

theorem validate_executable_any_extension:
  assumes "file_exists os exe_path"
  shows "fst (validate_executable os exe_path s)
       \<and> snd (validate_executable os exe_path s) =
           (if map tolower (get_extension exe_path) \<in> {''.exe'', ''.msi'', ''.bat''} then s
            else logger_warning
                   (''Unexpected file extension: '' @ map tolower (get_extension exe_path)) s)
       \<and> (exe_path = resolve_path os s path
            \<and> (capture_stdout (config s) \<longrightarrow> sys_pipe_stdout os \<noteq> None)
            \<and> (capture_stderr (config s) \<longrightarrow> sys_pipe_stderr os \<noteq> None)
            \<and> 0 < sys_fork os
          \<longrightarrow> returned_value (execute os info0 path args s) = Some (sys_fork os)
              \<and> map_option trace (returned_state (execute os info0 path args s))
                  = Some (trace s
                      @ (if map tolower (get_extension exe_path)
                              \<in> {''.exe'', ''.msi'', ''.bat''} then []
                         else [LogCall WARNING
                                 (''Unexpected file extension: ''
                                  @ map tolower (get_extension exe_path))])
                      @ launch_events os s exe_path (sys_fork os))
              \<and> map_option monitored_processes
                   (returned_state (execute os info0 path args s))
                  = Some (map_assign (sys_fork os)
                      (info0\<lparr>pid := sys_fork os, state := STARTING,
                         executable_path := exe_path, arguments := args,
                         environment := [], start_time := sys_now os, end_time := 0,
                         exit_code := 0, stdout_data := [], stderr_data := [],
                         wine_prefix := config_wine_prefix (config s),
                         architecture := config_architecture (config s)\<rparr>)
                      (monitored_processes s)))"
proof -
  have a: "fst (validate_executable os exe_path s)"
    using assms by (simp add: validate_executable_def Let_def)
  have b: "snd (validate_executable os exe_path s) =
           (if map tolower (get_extension exe_path) \<in> {''.exe'', ''.msi'', ''.bat''} then s
            else logger_warning
                   (''Unexpected file extension: '' @ map tolower (get_extension exe_path)) s)"
    using assms by (simp add: validate_executable_def Let_def)
  have c: "returned_value (execute os info0 path args s) = Some (sys_fork os)
              \<and> map_option trace (returned_state (execute os info0 path args s))
                  = Some (trace s
                      @ (if map tolower (get_extension exe_path)
                              \<in> {''.exe'', ''.msi'', ''.bat''} then []
                         else [LogCall WARNING
                                 (''Unexpected file extension: ''
                                  @ map tolower (get_extension exe_path))])
                      @ launch_events os s exe_path (sys_fork os))
              \<and> map_option monitored_processes
                   (returned_state (execute os info0 path args s))
                  = Some (map_assign (sys_fork os)
                      (info0\<lparr>pid := sys_fork os, state := STARTING,
                         executable_path := exe_path, arguments := args,
                         environment := [], start_time := sys_now os, end_time := 0,
                         exit_code := 0, stdout_data := [], stderr_data := [],
                         wine_prefix := config_wine_prefix (config s),
                         architecture := config_architecture (config s)\<rparr>)
                      (monitored_processes s))"
    if r: "exe_path = resolve_path os s path"
      and p1: "capture_stdout (config s) \<longrightarrow> sys_pipe_stdout os \<noteq> None"
      and p2: "capture_stderr (config s) \<longrightarrow> sys_pipe_stderr os \<noteq> None"
      and k: "0 < sys_fork os"
  proof -
    from assms r have f: "file_exists os (resolve_path os s path)" by simp
    from execute_success[OF f p1 p2 k, of info0 args] obtain s' where
      "execute os info0 path args s = Returns (sys_fork os) s'"
      "trace s' = trace s
          @ (if map tolower (get_extension (resolve_path os s path))
                  \<in> {''.exe'', ''.msi'', ''.bat''} then []
             else [LogCall WARNING
                     (''Unexpected file extension: ''
                      @ map tolower (get_extension (resolve_path os s path)))])
          @ launch_events os s (resolve_path os s path) (sys_fork os)"
      "monitored_processes s' =
          map_assign (sys_fork os)
            (info0\<lparr>pid := sys_fork os, state := STARTING,
               executable_path := resolve_path os s path, arguments := args,
               environment := [], start_time := sys_now os, end_time := 0,
               exit_code := 0, stdout_data := [], stderr_data := [],
               wine_prefix := config_wine_prefix (config s),
               architecture := config_architecture (config s)\<rparr>)
            (monitored_processes s)"
      by blast
    then show ?thesis unfolding r by simp
  qed
  from a b c show ?thesis by blast
qed

theorem validate_executable_any_extension_witness:
  "file_exists example_os ''/opt/app/notes.txt''
   \<and> validate_executable example_os ''/opt/app/notes.txt'' example_state
       = (True, example_state\<lparr>trace := [LogCall WARNING ''Unexpected file extension: .txt'']\<rparr>)
   \<and> resolve_path example_os example_state ''notes.txt'' = ''/opt/app/notes.txt''
   \<and> returned_value
        (execute example_os ProcessInfo_value_init ''notes.txt'' [] example_state)
       = Some 4242
   \<and> map_option trace
        (returned_state
           (execute example_os ProcessInfo_value_init ''notes.txt'' [] example_state))
       = Some [LogCall WARNING ''Unexpected file extension: .txt'',
               LogCall INFO ''Executing: /opt/app/notes.txt'',
               LogCall DEBUG ''Environment setup completed'',
               LogCall DEBUG ''Setting up registry settings'',
               LogCall INFO ''Added process 4242 to monitoring'',
               LogCall INFO ''Started process with PID: 4242'']
   \<and> map_option monitored_processes
        (returned_state
           (execute example_os ProcessInfo_value_init ''notes.txt'' [] example_state))
       = Some [(4242, \<lparr>pid = 4242, state = STARTING, executable_path = ''/opt/app/notes.txt'',
                 arguments = [], environment = [], start_time = 1000, end_time = 0,
                 exit_code = 0, stdout_data = [], stderr_data = [], memory_usage = 0,
                 cpu_usage = 0, wine_prefix = ''/home/u/.wine'',
                 architecture = AUTO_DETECT\<rparr>)]"
proof -
  have f: "file_exists example_os ''/opt/app/notes.txt''"
    by (simp add: file_exists_def example_os_def)
  have r: "resolve_path example_os example_state ''notes.txt'' = ''/opt/app/notes.txt''"
    by (simp add: resolve_path_def get_current_directory_def example_os_def)
  have e: "map tolower (get_extension ''/opt/app/notes.txt'') = ''.txt''"
    by (simp add: get_extension_def tolower_def)
  have o: "sys_pipe_stdout example_os \<noteq> None" "sys_pipe_stderr example_os \<noteq> None"
    "sys_fork example_os = 4242" "sys_now example_os = 1000"
    by (simp_all add: example_os_def)
  have l: "launch_events example_os example_state ''/opt/app/notes.txt'' 4242
      = [LogCall INFO ''Executing: /opt/app/notes.txt'',
               LogCall DEBUG ''Environment setup completed'',
               LogCall DEBUG ''Setting up registry settings'',
               LogCall INFO ''Added process 4242 to monitoring'',
               LogCall INFO ''Started process with PID: 4242'']"
    by (simp add: launch_events_def pre_launch_events_def example_state_def example_config_def
        num_defs)
  note t = validate_executable_any_extension[OF f, of example_state "''notes.txt''"
      ProcessInfo_value_init "[]"]
  from t have v: "validate_executable example_os ''/opt/app/notes.txt'' example_state
       = (True, example_state\<lparr>trace := [LogCall WARNING ''Unexpected file extension: .txt'']\<rparr>)"
    using e by (auto simp: logger_warning_def logger_log_def emit_def example_state_def prod_eq_iff)
  from t r o have x: "returned_value
        (execute example_os ProcessInfo_value_init ''notes.txt'' [] example_state)
       = Some 4242
   \<and> map_option trace
        (returned_state
           (execute example_os ProcessInfo_value_init ''notes.txt'' [] example_state))
       = Some (trace example_state @ [LogCall WARNING ''Unexpected file extension: .txt'']
           @ launch_events example_os example_state ''/opt/app/notes.txt'' 4242)
   \<and> map_option monitored_processes
        (returned_state
           (execute example_os ProcessInfo_value_init ''notes.txt'' [] example_state))
       = Some (map_assign 4242
           (ProcessInfo_value_init\<lparr>pid := 4242, state := STARTING,
                         executable_path := ''/opt/app/notes.txt'', arguments := [],
                         environment := [], start_time := 1000, end_time := 0,
                         exit_code := 0, stdout_data := [], stderr_data := [],
                         wine_prefix := config_wine_prefix (config example_state),
                         architecture := config_architecture (config example_state)\<rparr>)
           (monitored_processes example_state))"
    using e by simp
  from f v r x l show ?thesis
    by (simp add: example_state_def example_config_def ProcessInfo_value_init_def)
qed

text \<open>
  Claim C6, as stated, fails: \<open>locked.exe\<close> resolves to a regular file that the caller
  may not read, and the launch goes through and registers process 4242.
\<close>

theorem unreadable_file_counterexample:
  "sys_stat example_os (resolve_path example_os example_state ''locked.exe'')
     = Some \<lparr>st_isreg = True, st_readable = False\<rparr>
   \<and> returned_value
        (execute example_os ProcessInfo_value_init ''locked.exe'' [] example_state)
       = Some 4242
   \<and> map_option get_all_processes
        (returned_state
           (execute example_os ProcessInfo_value_init ''locked.exe'' [] example_state))
       = Some [\<lparr>pid = 4242, state = STARTING, executable_path = ''/opt/app/locked.exe'',
                 arguments = [], environment = [], start_time = 1000, end_time = 0,
                 exit_code = 0, stdout_data = [], stderr_data = [], memory_usage = 0,
                 cpu_usage = 0, wine_prefix = ''/home/u/.wine'',
                 architecture = AUTO_DETECT\<rparr>]"
  by (simp add: exec_eval ex_defs num_defs log_defs Let_def)

text \<open>
  Claim C6, amended. When the resolved path is not an existing regular file, as
  \<open>stat\<close> reports it (whether the file can be read is not looked at), \<open>execute\<close>
  logs the error and returns -1; the asynchronous variant returns false and the
  synchronous one -1; no hook runs, nothing is registered and the list of processes is as
  before.
\<close>

theorem execute_missing_file:
  assumes "\<not> file_exists os (resolve_path os s path)"
  shows "execute os info0 path args s
           = Returns (- 1)
               (logger_error (''Executable not found: '' @ resolve_path os s path) s)
       \<and> execute_async os info0 path args s
           = Returns False
               (logger_error (''Executable not found: '' @ resolve_path os s path) s)
       \<and> execute_sync os info0 path args s
           = Returns (- 1)
               (logger_error (''Executable not found: '' @ resolve_path os s path) s)
       \<and> get_all_processes
           (logger_error (''Executable not found: '' @ resolve_path os s path) s)
           = get_all_processes s
       \<and> monitored_processes
           (logger_error (''Executable not found: '' @ resolve_path os s path) s)
           = monitored_processes s"
  using assms
  by (simp add: execute_def execute_async_def execute_sync_def validate_executable_def
      get_all_processes_def log_defs Let_def)

theorem execute_missing_file_witness:
  "\<not> file_exists example_os (resolve_path example_os example_state ''~/missing.exe'')
   \<and> execute example_os ProcessInfo_value_init ''~/missing.exe'' [] example_state
       = Returns (- 1)
           (example_state\<lparr>trace :=
              [LogCall ERROR_LOG ''Executable not found: /home/u/missing.exe'']\<rparr>)
   \<and> get_all_processes
        (example_state\<lparr>trace :=
              [LogCall ERROR_LOG ''Executable not found: /home/u/missing.exe'']\<rparr>) = []"
proof -
  have r: "resolve_path example_os example_state ''~/missing.exe'' = ''/home/u/missing.exe''"
    by (simp add: resolve_path_def get_home_directory_def getenv_def example_state_def)
  have h: "\<not> file_exists example_os (resolve_path example_os example_state ''~/missing.exe'')"
    unfolding r by (simp add: file_exists_def example_os_def)
  from execute_missing_file[OF h, of ProcessInfo_value_init "[]"] h r show ?thesis
    by (simp add: log_defs get_all_processes_def example_state_def)
qed

text \<open>
  Claim C4, as stated, fails: after the launch of \<open>game.exe\<close> the record of process
  4242 is in the table in state \<open>STARTING\<close>, not \<open>RUNNING\<close>.
\<close>

theorem launch_state_counterexample:
  "execute example_os ProcessInfo_value_init ''game.exe'' [] example_state
     = Returns 4242 example_launched
   \<and> execute_async example_os ProcessInfo_value_init ''game.exe'' [] example_state
       = Returns True example_launched
   \<and> map pid (get_all_processes example_launched) = [4242]
   \<and> map state (get_all_processes example_launched) = [STARTING]
   \<and> state (get_process_info 4242 example_launched) = STARTING"
  by (simp add: exec_eval ex_defs example_launched_def num_defs log_defs Let_def)

text \<open>
  Claim C4, amended. After a launch that returns a positive identifier, the record is in
  the table and in the list of processes, in state \<open>STARTING\<close>, with the resolved
  path, the arguments, the start time and exit code 0. It leaves \<open>STARTING\<close> at the
  first pass of the monitor, which gives a process that passes the liveness probe the
  state read from its stat file.
\<close>

theorem execute_registers_starting:
  assumes "execute os info0 path args s = Returns p s'" and "0 < p"
  shows "is_process_monitored p s'
       \<and> get_process_info p s' \<in> set (get_all_processes s')
       \<and> get_process_info p s' =
           info0\<lparr>pid := p, state := STARTING,
                 executable_path := resolve_path os s path, arguments := args,
                 environment := [], start_time := sys_now os, end_time := 0,
                 exit_code := 0, stdout_data := [], stderr_data := [],
                 wine_prefix := config_wine_prefix (config s),
                 architecture := config_architecture (config s)\<rparr>
       \<and> state (get_process_info p s') = STARTING
       \<and> (monitor_pass os' s' = Some s'' \<and> is_process_alive os' p
            \<longrightarrow> get_process_state os' p = Some (state (get_process_info p s'')))"
proof -
  let ?info = "info0\<lparr>pid := p, state := STARTING,
                 executable_path := resolve_path os s path, arguments := args,
                 environment := [], start_time := sys_now os, end_time := 0,
                 exit_code := 0, stdout_data := [], stderr_data := [],
                 wine_prefix := config_wine_prefix (config s),
                 architecture := config_architecture (config s)\<rparr>"
  from execute_parent[OF assms] obtain s5 where
    s': "s' = logger_info (''Started process with PID: '' @ to_string p)
                (add_process p ?info (s5\<lparr>current_process_pid := p, execution_active := True\<rparr>))"
    by blast
  have m: "map_of (monitored_processes s') p = Some ?info"
    unfolding s' by (simp add: add_process_def log_defs map_of_map_assign)
  have mon: "is_process_monitored p s'" using m by (simp add: is_process_monitored_def)
  have g: "get_process_info p s' = ?info" using m by (simp add: get_process_info_def)
  from map_of_SomeD[OF m] have "?info \<in> snd ` set (monitored_processes s')" by force
  then have a: "get_process_info p s' \<in> set (get_all_processes s')"
    unfolding g by (simp add: get_all_processes_def)
  have "get_process_state os' p = Some (state (get_process_info p s''))"
    if "monitor_pass os' s' = Some s''" "is_process_alive os' p"
    using monitor_pass_alive_state[OF that(1) mon that(2)] g by simp
  with mon a g show ?thesis by simp
qed

theorem execute_registers_starting_witness:
  "execute example_os ProcessInfo_value_init ''game.exe'' [] example_state
     = Returns 4242 example_launched
   \<and> is_process_monitored 4242 example_launched
   \<and> get_process_info 4242 example_launched \<in> set (get_all_processes example_launched)
   \<and> state (get_process_info 4242 example_launched) = STARTING
   \<and> is_process_alive example_os 4242
   \<and> map_option (\<lambda>s''. state (get_process_info 4242 s''))
        (monitor_pass example_os example_launched) = Some PAUSED"
proof -
  have e: "execute example_os ProcessInfo_value_init ''game.exe'' [] example_state
            = Returns 4242 example_launched"
    by (simp add: exec_eval ex_defs example_launched_def num_defs log_defs Let_def)
  have p: "(0::int) < 4242" by simp
  have alive: "is_process_alive example_os 4242"
    by (simp add: is_process_alive_def example_os_def)
  have st: "get_process_state example_os 4242 = Some PAUSED"
    by (simp add: get_process_state_def example_os_def)
  obtain s'' where mp: "monitor_pass example_os example_launched = Some s''"
    by (simp add: monitor_pass_def is_process_alive_def update_process_stats_def
        get_process_state_def calculate_cpu_usage_def get_memory_usage_def
        example_launched_def ex_defs Let_def)
  note t = execute_registers_starting[OF e p, of example_os s'']
  from t have a: "is_process_monitored 4242 example_launched" by (rule conjunct1)
  from t have b: "get_process_info 4242 example_launched \<in> set (get_all_processes example_launched)"
    by blast
  from t have c: "state (get_process_info 4242 example_launched) = STARTING" by blast
  from t mp alive st have d: "state (get_process_info 4242 s'') = PAUSED" by simp
  from e a b c alive mp d show ?thesis by simp
qed

text \<open>
  Claim C7. After a launch that returns a positive identifier, the synchronous variant
  waits for the child: it returns the child's exit code when the child exited, the negated
  signal number when a signal ended it, and does not return while the child does not
  terminate. The post-launch hooks run after the wait, each once and in order. The
  asynchronous variant returns after the registration, and the launch itself runs no
  post-launch hook.
\<close>

theorem execute_sync_waits_then_runs_hooks:
  assumes "execute os info0 path args s = Returns p s1" and "0 < p"
  shows "(sys_waitpid os p = Some (Exited code)
            \<longrightarrow> execute_sync os info0 path args s = Returns code (after_wait os p code s1))
       \<and> (sys_waitpid os p = Some (Signaled sig)
            \<longrightarrow> execute_sync os info0 path args s
                  = Returns (- sig) (after_wait os p (- sig) s1))
       \<and> (sys_waitpid os p = None
            \<longrightarrow> execute_sync os info0 path args s = Blocked (emit (SysWaitpid p) s1))
       \<and> filter is_post_launch (post_launch_events os (post_launch_commands s1))
           = map PostLaunch (post_launch_commands s)
       \<and> execute_async os info0 path args s = Returns True s1
       \<and> filter is_post_launch (trace s1) = filter is_post_launch (trace s)"
proof -
  from execute_returns_same[OF assms(1)]
  have c: "post_launch_commands s1 = post_launch_commands s"
    and t: "filter is_post_launch (trace s1) = filter is_post_launch (trace s)"
    by simp_all
  have exited: "execute_sync os info0 path args s = Returns code (after_wait os p code s1)"
    if "sys_waitpid os p = Some (Exited code)"
    using assms that
    by (simp add: execute_sync_def wait_for_process_def post_launch_state close_pipes_def
        after_wait_def log_defs Let_def)
  have signaled: "execute_sync os info0 path args s
      = Returns (- sig) (after_wait os p (- sig) s1)"
    if "sys_waitpid os p = Some (Signaled sig)"
    using assms that
    by (simp add: execute_sync_def wait_for_process_def post_launch_state close_pipes_def
        after_wait_def log_defs Let_def)
  have blocked: "execute_sync os info0 path args s = Blocked (emit (SysWaitpid p) s1)"
    if "sys_waitpid os p = None"
    using assms that by (simp add: execute_sync_def wait_for_process_def Let_def)
  have async: "execute_async os info0 path args s = Returns True s1"
    using assms by (simp add: execute_async_def)
  have hooks: "filter is_post_launch (post_launch_events os (post_launch_commands s1))
           = map PostLaunch (post_launch_commands s)"
    by (simp add: post_launch_only_hooks c)
  from exited signaled blocked hooks async t show ?thesis by blast
qed

theorem execute_sync_waits_then_runs_hooks_witness:
  "execute example_os ProcessInfo_value_init ''game.exe'' []
     (example_state\<lparr>post_launch_commands := [''sync'']\<rparr>)
     = Returns 4242 (example_launched\<lparr>post_launch_commands := [''sync'']\<rparr>)
   \<and> execute_sync (example_os\<lparr>sys_waitpid := (\<lambda>p. Some (Signaled 9))\<rparr>)
        ProcessInfo_value_init ''game.exe'' []
        (example_state\<lparr>post_launch_commands := [''sync'']\<rparr>)
     = Returns (- 9)
         (example_launched
            \<lparr>post_launch_commands := [''sync''],
             trace := trace example_launched @
               [SysWaitpid 4242,
                LogCall DEBUG ''Executing post-launch command: sync'',
                PostLaunch ''sync'',
                LogCall DEBUG ''Post-launch command output: '',
                LogCall INFO ''Process 4242 exited with code: -9''],
             execution_active := False,
             stdout_pipe := (- 1, - 1), stderr_pipe := (- 1, - 1)\<rparr>)
   \<and> execute_sync example_os ProcessInfo_value_init
        ''game.exe'' [] (example_state\<lparr>post_launch_commands := [''sync'']\<rparr>)
     = Returns 0
         (example_launched
            \<lparr>post_launch_commands := [''sync''],
             trace := trace example_launched @
               [SysWaitpid 4242,
                LogCall DEBUG ''Executing post-launch command: sync'',
                PostLaunch ''sync'',
                LogCall DEBUG ''Post-launch command output: '',
                LogCall INFO ''Process 4242 exited with code: 0''],
             execution_active := False,
             stdout_pipe := (- 1, - 1), stderr_pipe := (- 1, - 1)\<rparr>)
   \<and> execute_sync (example_os\<lparr>sys_waitpid := (\<lambda>p. None)\<rparr>)
        ProcessInfo_value_init ''game.exe'' []
        (example_state\<lparr>post_launch_commands := [''sync'']\<rparr>)
     = Blocked
         (example_launched
            \<lparr>post_launch_commands := [''sync''],
             trace := trace example_launched @ [SysWaitpid 4242]\<rparr>)
   \<and> execute_async example_os ProcessInfo_value_init ''game.exe'' []
        (example_state\<lparr>post_launch_commands := [''sync'']\<rparr>)
     = Returns True (example_launched\<lparr>post_launch_commands := [''sync'']\<rparr>)
   \<and> filter is_post_launch (trace example_launched) = []"
proof -
  let ?s = "example_state\<lparr>post_launch_commands := [''sync'']\<rparr>"
  let ?sig = "example_os\<lparr>sys_waitpid := (\<lambda>p. Some (Signaled 9))\<rparr>"
  let ?never = "example_os\<lparr>sys_waitpid := (\<lambda>p. None)\<rparr>"
  have e: "execute example_os ProcessInfo_value_init ''game.exe'' [] ?s
            = Returns 4242 (example_launched\<lparr>post_launch_commands := [''sync'']\<rparr>)"
    by (simp add: exec_eval ex_defs example_launched_def num_defs log_defs Let_def)
  have e': "execute ?sig ProcessInfo_value_init ''game.exe'' [] ?s
            = Returns 4242 (example_launched\<lparr>post_launch_commands := [''sync'']\<rparr>)"
    by (simp add: exec_eval ex_defs example_launched_def num_defs log_defs Let_def)
  have e'': "execute ?never ProcessInfo_value_init ''game.exe'' [] ?s
            = Returns 4242 (example_launched\<lparr>post_launch_commands := [''sync'']\<rparr>)"
    by (simp add: exec_eval ex_defs example_launched_def num_defs log_defs Let_def)
  have p: "(0::int) < 4242" by simp
  have w: "sys_waitpid example_os 4242 = Some (Exited 0)"
    "sys_waitpid ?sig 4242 = Some (Signaled 9)" "sys_waitpid ?never 4242 = None"
    by (simp_all add: example_os_def)
  from execute_sync_waits_then_runs_hooks[OF e p, of 0]
    execute_sync_waits_then_runs_hooks[OF e' p, where sig = 9]
    execute_sync_waits_then_runs_hooks[OF e'' p] e w
  show ?thesis
    by (simp add: after_wait_def emit_def post_launch_events_def num_defs example_os_def
        example_launched_def example_state_def)
qed

text \<open>
  Claim C5, as stated, fails: the user's \<open>WINE_AUDIO_DRIVER=jack\<close> loses to the audio
  driver \<open>alsa\<close> of the configuration, and the inherited \<open>DISPLAY=:1\<close> wins over the
  graphics driver's \<open>:0\<close>, in the environment the child is started with; the user's
  \<open>WINEDLLOVERRIDES\<close> loses to the DLL override list.
\<close>

theorem user_override_counterexample:
  "execute (example_os\<lparr>sys_fork := 0\<rparr>) ProcessInfo_value_init ''game.exe'' []
     (example_state\<lparr>custom_environment := [(''WINE_AUDIO_DRIVER'', ''jack'')],
        environ := [(''DISPLAY'', '':1''), (''HOME'', ''/home/u'')]\<rparr>)
    = ChildExec [''wine'', ''/opt/app/game.exe'']
        [(''DISPLAY'', '':1''), (''HOME'', ''/home/u''), (''WINEPREFIX'', ''/home/u/.wine''),
         (''CSMT'', ''enabled''), (''WINEESYNC'', ''1''),
         (''WINEDLLOVERRIDES'', ''winemapi.dll=n,b''), (''WINE_AUDIO_DRIVER'', ''alsa'')]
   \<and> getenv ''WINEDLLOVERRIDES''
        (environ (setup_launch
           (example_state
              \<lparr>config := example_config
                  \<lparr>environment_variables := [(''WINEDLLOVERRIDES'', ''mine'')],
                   dll_overrides := [''d3d11=n'', ''dxgi=n'']\<rparr>\<rparr>)))
       = Some ''d3d11=n;dxgi=n''"
  by (simp add: exec_eval ex_defs num_defs log_defs Let_def)

text \<open>
  Claim C5, amended. In the environment of the child every name that \<open>setenv\<close> accepts
  has the value of the last writer in this order: the graphics defaults (\<open>DISPLAY\<close>,
  \<open>WAYLAND_DISPLAY\<close>, \<open>DXVK_HUD\<close>, written only when the name is not defined), the
  inherited environment, the variables \<open>setup_environment\<close> derives from the prefix and
  the feature flags, the custom variables of the executor, the variables of the
  configuration, and last \<open>WINEDLLOVERRIDES\<close> from a non-empty DLL override list and
  \<open>WINE_AUDIO_DRIVER\<close> from the audio driver. So a user-supplied value wins over the
  inherited and the feature-derived value of the same name, except for those two names.
\<close>

theorem child_environment_precedence:
  assumes "valid_name k" and "distinct (map fst (custom_environment s))"
    and "distinct (map fst (environment_variables (config s)))"
  shows "getenv k (environ (setup_launch s)) = assembled_value s k
       \<and> (execute os info0 path args s = ChildExec command env
            \<longrightarrow> getenv k env = assembled_value s k)
       \<and> (user_value s k = Some v
            \<longrightarrow> assembled_value s k =
                  Some (case late_feature_value (config s) k of Some w \<Rightarrow> w | None \<Rightarrow> v))"
proof -
  have a: "getenv k (environ (setup_launch s)) = assembled_value s k"
    by (rule getenv_setup_launch[OF assms])
  have b: "getenv k env = assembled_value s k"
    if "execute os info0 path args s = ChildExec command env"
  proof -
    let ?s3 = "snd (execute_pre_launch_commands os
        (logger_info (''Executing: '' @ resolve_path os s path)
           (snd (validate_executable os (resolve_path os s path) s))))"
    from execute_child[OF that] have "env = environ (setup_launch ?s3)" .
    moreover have "getenv k (environ (setup_launch ?s3)) = assembled_value ?s3 k"
      using assms by (intro getenv_setup_launch) (simp_all add: environ_before_setup)
    moreover have "assembled_value ?s3 k = assembled_value s k"
      by (rule assembled_value_cong) (simp_all add: environ_before_setup)
    ultimately show ?thesis by simp
  qed
  have c: "assembled_value s k =
             Some (case late_feature_value (config s) k of Some w \<Rightarrow> w | None \<Rightarrow> v)"
    if "user_value s k = Some v"
    using that by (simp add: assembled_value_def split: option.splits)
  from a b c show ?thesis by blast
qed

theorem child_environment_precedence_witness:
  "valid_name ''WINEESYNC''
   \<and> user_value (example_state\<lparr>custom_environment := [(''WINEESYNC'', ''0'')]\<rparr>) ''WINEESYNC''
       = Some ''0''
   \<and> early_feature_value example_config ''WINEESYNC'' = Some ''1''
   \<and> getenv ''WINEESYNC''
        (environ (setup_launch (example_state\<lparr>custom_environment := [(''WINEESYNC'', ''0'')]\<rparr>)))
       = Some ''0''
   \<and> execute (example_os\<lparr>sys_fork := 0\<rparr>) ProcessInfo_value_init ''game.exe'' []
        (example_state\<lparr>custom_environment := [(''WINEESYNC'', ''0'')]\<rparr>)
       = ChildExec [''wine'', ''/opt/app/game.exe'']
           [(''HOME'', ''/home/u''), (''WINEPREFIX'', ''/home/u/.wine''),
            (''CSMT'', ''enabled''), (''WINEESYNC'', ''0''),
            (''WINEDLLOVERRIDES'', ''winemapi.dll=n,b''), (''DISPLAY'', '':0''),
            (''WINE_AUDIO_DRIVER'', ''alsa'')]"
proof -
  let ?s = "example_state\<lparr>custom_environment := [(''WINEESYNC'', ''0'')]\<rparr>"
  have k: "valid_name ''WINEESYNC''" by simp
  have d1: "distinct (map fst (custom_environment ?s))" by simp
  have d2: "distinct (map fst (environment_variables (config ?s)))"
    by (simp add: example_state_def example_config_def)
  have u: "user_value ?s ''WINEESYNC'' = Some ''0''"
    by (simp add: user_value_def example_state_def example_config_def)
  have l: "late_feature_value (config ?s) ''WINEESYNC'' = None"
    by (simp add: late_feature_value_def)
  have f: "early_feature_value example_config ''WINEESYNC'' = Some ''1''"
    by (simp add: early_feature_value_def example_config_def)
  have e: "execute (example_os\<lparr>sys_fork := 0\<rparr>) ProcessInfo_value_init ''game.exe'' [] ?s
       = ChildExec [''wine'', ''/opt/app/game.exe'']
           [(''HOME'', ''/home/u''), (''WINEPREFIX'', ''/home/u/.wine''),
            (''CSMT'', ''enabled''), (''WINEESYNC'', ''0''),
            (''WINEDLLOVERRIDES'', ''winemapi.dll=n,b''), (''DISPLAY'', '':0''),
            (''WINE_AUDIO_DRIVER'', ''alsa'')]"
    by (simp add: exec_eval ex_defs num_defs log_defs Let_def)
  from child_environment_precedence[OF k d1 d2, where v = "''0''"
      and os = "example_os\<lparr>sys_fork := 0\<rparr>" and ?info0.0 = ProcessInfo_value_init
      and path = "''game.exe''" and args = "[]"] u l f e k
  show ?thesis by simp
qed

end
